(* ===== verification/Prelude.thy ===== *)
theory Prelude
  imports Main "HOL-Library.Sublist"
begin

text \<open>
  Shared vocabulary of the development. A Go function of the sample program is modelled
  as a state transformer that either returns a value or stops the process:
  \<open>('s, 'a) go = 's \<Rightarrow> (halt + 'a) \<times> 's\<close>. \<open>Inl (Exit n)\<close> is a call of
  \<^verbatim>\<open>os.Exit(n)\<close>, \<open>Inl (Panic m)\<close> a Go run-time panic; \<open>Inr x\<close> is a normal
  return of \<open>x\<close>. Sequencing (\<open>bind_go\<close>) short-circuits on \<open>Inl\<close>, which is how
  \<^verbatim>\<open>os.Exit\<close> ends the process in the middle of a function. The collection
  \<open>go_simps\<close> holds the evaluation rules of the combinators; it carries the proofs of
  every component.
\<close>

section \<open>Process outcomes and the Go monad\<close>

datatype halt = Exit int | Panic string

type_synonym ('s, 'a) go = "'s \<Rightarrow> (halt + 'a) \<times> 's"

named_theorems go_simps "evaluation rules for the Go monad"

definition ret :: "'a \<Rightarrow> ('s, 'a) go" where
  "ret x = (\<lambda>s. (Inr x, s))"

definition halt_with :: "halt \<Rightarrow> ('s, 'a) go" where
  "halt_with h = (\<lambda>s. (Inl h, s))"

definition bind_go :: "('s, 'a) go \<Rightarrow> ('a \<Rightarrow> ('s, 'b) go) \<Rightarrow> ('s, 'b) go" where
  "bind_go m f = (\<lambda>s. case m s of (Inl h, s') \<Rightarrow> (Inl h, s') | (Inr x, s') \<Rightarrow> f x s')"

definition then_go :: "('s, 'a) go \<Rightarrow> ('s, 'b) go \<Rightarrow> ('s, 'b) go" where
  "then_go m n = bind_go m (\<lambda>_. n)"

text \<open>A sequence of statements, each run only if the one before returned.\<close>

fun seq_go :: "('s, unit) go list \<Rightarrow> ('s, unit) go" where
  "seq_go [] = ret ()"
| "seq_go (m # ms) = then_go m (seq_go ms)"

text \<open>
  The exit status of the process: 0 when \<^verbatim>\<open>main\<close> returns, the argument of
  \<^verbatim>\<open>os.Exit\<close>, and 2 for an unrecovered panic (the Go run-time's status).
\<close>

fun exit_status :: "halt + 'a \<Rightarrow> int" where
  "exit_status (Inr _) = 0"
| "exit_status (Inl (Exit n)) = n"
| "exit_status (Inl (Panic _)) = 2"

text \<open>The characters Go's format strings write with escapes.\<close>

definition nl :: string where
  "nl = [CHR 0x0A]"

definition tab :: string where
  "tab = [CHR 0x09]"

definition squote :: "string \<Rightarrow> string" where
  "squote s = [CHR 0x27] @ s @ [CHR 0x27]"

text \<open>Reading a package variable.\<close>

definition get_var :: "('s \<Rightarrow> 'a) \<Rightarrow> ('s, 'a) go" where
  "get_var sel = (\<lambda>s. (Inr (sel s), s))"

section \<open>Properties of statements\<close>

text \<open>
  \<open>keeps f m\<close>: running \<open>m\<close> never changes the observation \<open>f\<close> of the state,
  whatever it returns. The introduction rules follow the combinators, so that a frame
  property of a whole function is proved by \<open>intro keeps_intros\<close>.
\<close>

definition keeps :: "('s \<Rightarrow> 'k) \<Rightarrow> ('s, 'a) go \<Rightarrow> bool" where
  "keeps f m \<longleftrightarrow> (\<forall>s. f (snd (m s)) = f s)"

named_theorems keeps_intros "introduction rules for frame conditions"

text \<open>
  \<open>emits obs m xs\<close>: a run of \<open>m\<close> appends to the log \<open>obs\<close> exactly \<open>xs\<close> when
  it returns, and a prefix of \<open>xs\<close> when it stops the process. The rules compose it
  along the combinators; the whole-program ordering theorem is built from them.
\<close>

definition emits :: "('s \<Rightarrow> 'e list) \<Rightarrow> ('s, 'a) go \<Rightarrow> 'e list \<Rightarrow> bool" where
  "emits obs m xs \<longleftrightarrow> (\<forall>s. \<exists>ys. obs (snd (m s)) = obs s @ ys \<and>
     (case fst (m s) of Inl _ \<Rightarrow> prefix ys xs | Inr _ \<Rightarrow> ys = xs))"

named_theorems emits_intros "introduction rules for logged events"

text \<open>
  \<open>halts_in H m\<close>: every way \<open>m\<close> can stop the process is in \<open>H\<close>. The rules
  follow the combinators; the bound on the exit status of the whole program is built
  from them.
\<close>

definition halts_in :: "halt set \<Rightarrow> ('s, 'a) go \<Rightarrow> bool" where
  "halts_in H m \<longleftrightarrow> (\<forall>s h. fst (m s) = Inl h \<longrightarrow> h \<in> H)"

named_theorems halts_intros "introduction rules for possible outcomes"

text \<open>
  \<open>blind R m\<close>: started in two states related by \<open>R\<close>, \<open>m\<close> has the same
  outcome and ends in related states. With \<open>R\<close> "equal but for one field", it says
  that the field never influences \<open>m\<close>.
\<close>

definition blind :: "('s \<Rightarrow> 's \<Rightarrow> bool) \<Rightarrow> ('s, 'a) go \<Rightarrow> bool" where
  "blind R m \<longleftrightarrow> (\<forall>s t. R s t \<longrightarrow> fst (m s) = fst (m t) \<and> R (snd (m s)) (snd (m t)))"

named_theorems blind_intros "introduction rules for blindness"

text \<open>
  \<open>returns_with P m Q\<close>: a partial-correctness triple on normal return. From a
  state satisfying \<open>P\<close>, if \<open>m\<close> returns (does not stop the process), the state
  after it satisfies \<open>Q\<close>.
\<close>

definition returns_with :: "('s \<Rightarrow> bool) \<Rightarrow> ('s, 'a) go \<Rightarrow> ('s \<Rightarrow> bool) \<Rightarrow> bool" where
  "returns_with P m Q \<longleftrightarrow> (\<forall>s x. P s \<longrightarrow> fst (m s) = Inr x \<longrightarrow> Q (snd (m s)))"

named_theorems returns_intros "introduction rules for triples on normal return"

section \<open>Evaluation rules\<close>

lemma ret_apply [go_simps]: "ret x s = (Inr x, s)"
  by (simp add: ret_def)

lemma halt_with_apply [go_simps]: "halt_with h s = (Inl h, s)"
  by (simp add: halt_with_def)

lemma bind_go_apply [go_simps]:
  "bind_go m f s = (case m s of (Inl h, s') \<Rightarrow> (Inl h, s') | (Inr x, s') \<Rightarrow> f x s')"
  by (simp add: bind_go_def)

lemma then_go_apply [go_simps]:
  "then_go m n s = (case m s of (Inl h, s') \<Rightarrow> (Inl h, s') | (Inr x, s') \<Rightarrow> n s')"
  by (simp add: then_go_def bind_go_def)

lemma bind_go_Inl: "m s = (Inl h, s') \<Longrightarrow> bind_go m f s = (Inl h, s')"
  by (simp add: bind_go_def)

lemma bind_go_Inr: "m s = (Inr x, s') \<Longrightarrow> bind_go m f s = f x s'"
  by (simp add: bind_go_def)

lemma then_go_Inl: "m s = (Inl h, s') \<Longrightarrow> then_go m n s = (Inl h, s')"
  by (simp add: then_go_def bind_go_def)

lemma then_go_Inr: "m s = (Inr x, s') \<Longrightarrow> then_go m n s = n s'"
  by (simp add: then_go_def bind_go_def)

lemma bind_go_ret [simp]: "bind_go (ret x) f = f x"
  by (simp add: bind_go_def ret_def fun_eq_iff)

lemma bind_go_halt [simp]: "bind_go (halt_with h) f = halt_with h"
  by (simp add: bind_go_def halt_with_def fun_eq_iff)

lemma then_go_ret [simp]: "then_go (ret x) n = n"
  by (simp add: then_go_def)

lemma then_go_halt [simp]: "then_go (halt_with h) n = halt_with h"
  by (simp add: then_go_def)

lemma bind_go_assoc: "bind_go (bind_go m f) g = bind_go m (\<lambda>x. bind_go (f x) g)"
  by (simp add: bind_go_def fun_eq_iff split: prod.splits sum.splits)

lemma bind_go_cases:
  assumes "bind_go m f s = (r, s'')"
  obtains h where "m s = (Inl h, s'')" and "r = Inl h"
    | x s' where "m s = (Inr x, s')" and "f x s' = (r, s'')"
  using assms by (cases "m s" rule: prod.exhaust; cases "fst (m s)")
    (auto simp: bind_go_def)

lemma seq_go_append: "seq_go (ms @ ns) = then_go (seq_go ms) (seq_go ns)"
  by (induction ms) (simp_all add: then_go_def bind_go_assoc)

text \<open>
  A run of a statement sequence in which the first \<open>i\<close> statements return and the
  \<open>i\<close>-th one stops the process stops it with the same outcome.
\<close>

lemma seq_go_Inl:
  "m s = (Inl h, s') \<Longrightarrow> seq_go (m # ms) s = (Inl h, s')"
  by (simp add: then_go_Inl)

lemma seq_go_Inr:
  "m s = (Inr x, s') \<Longrightarrow> seq_go (m # ms) s = seq_go ms s'"
  by (simp add: then_go_Inr)

lemma get_var_apply [go_simps]: "get_var sel s = (Inr (sel s), s)"
  by (simp add: get_var_def)

section \<open>Frame conditions\<close>

lemma keeps_ret [keeps_intros]: "keeps f (ret x)"
  by (simp add: keeps_def ret_def)

lemma keeps_halt [keeps_intros]: "keeps f (halt_with h)"
  by (simp add: keeps_def halt_with_def)

lemma keeps_bind [keeps_intros]:
  assumes "keeps f m" and "\<And>x. keeps f (g x)"
  shows "keeps f (bind_go m g)"
  unfolding keeps_def
proof
  fix s
  obtain r s' where ms: "m s = (r, s')" by fastforce
  have "f s' = f s" using assms(1) ms unfolding keeps_def by (metis snd_conv)
  then show "f (snd (bind_go m g s)) = f s"
    using assms(2) ms by (cases r) (simp_all add: bind_go_def keeps_def)
qed

lemma keeps_then [keeps_intros]: "keeps f m \<Longrightarrow> keeps f n \<Longrightarrow> keeps f (then_go m n)"
  by (simp add: then_go_def keeps_bind)

lemma keeps_if [keeps_intros]: "keeps f m \<Longrightarrow> keeps f n \<Longrightarrow> keeps f (if b then m else n)"
  by simp

lemma keeps_case_option [keeps_intros]:
  "keeps f m \<Longrightarrow> (\<And>x. keeps f (n x)) \<Longrightarrow> keeps f (case p of None \<Rightarrow> m | Some x \<Rightarrow> n x)"
  by (simp split: option.splits)

lemma keeps_case_prod [keeps_intros]:
  "(\<And>x y. keeps f (m x y)) \<Longrightarrow> keeps f (case p of (x, y) \<Rightarrow> m x y)"
  by (simp split: prod.splits)

lemma keeps_get_var [keeps_intros]: "keeps f (get_var sel)"
  by (simp add: keeps_def get_var_def)

lemma keepsD: "keeps f m \<Longrightarrow> m s = (r, s') \<Longrightarrow> f s' = f s"
  by (metis keeps_def snd_conv)

section \<open>Logged events\<close>

lemma emitsI:
  "(\<And>s. \<exists>ys. obs (snd (m s)) = obs s @ ys \<and>
     (case fst (m s) of Inl _ \<Rightarrow> prefix ys xs | Inr _ \<Rightarrow> ys = xs)) \<Longrightarrow> emits obs m xs"
  by (simp add: emits_def)

lemma emitsD:
  assumes "emits obs m xs" and "m s = (r, s')"
  obtains ys where "obs s' = obs s @ ys" and "prefix ys xs" and "isl r \<or> ys = xs"
proof -
  from assms(1) obtain ys where o: "obs (snd (m s)) = obs s @ ys"
    and c: "case fst (m s) of Inl _ \<Rightarrow> prefix ys xs | Inr _ \<Rightarrow> ys = xs"
    unfolding emits_def by blast
  from assms(2) o c show ?thesis using that by (cases r) auto
qed

lemma emits_keeps: "keeps obs m \<Longrightarrow> emits obs m []"
  by (auto simp: emits_def keeps_def split: sum.splits)

lemma emits_ret [emits_intros]: "emits obs (ret x) []"
  by (simp add: emits_def ret_def)

lemma emits_halt [emits_intros]: "emits obs (halt_with h) xs"
  by (simp add: emits_def halt_with_def)

lemma emits_get_var [emits_intros]: "emits obs (get_var sel) []"
  by (simp add: emits_def get_var_def)

lemma emits_bind [emits_intros]:
  assumes m: "emits obs m xs" and f: "\<And>x. emits obs (f x) ys" and eq: "zs = xs @ ys"
  shows "emits obs (bind_go m f) zs"
proof (rule emitsI)
  fix s
  obtain r s' where ms: "m s = (r, s')" by fastforce
  from m ms obtain us where us: "obs s' = obs s @ us" "prefix us xs" "isl r \<or> us = xs"
    by (rule emitsD)
  show "\<exists>ys'. obs (snd (bind_go m f s)) = obs s @ ys' \<and>
     (case fst (bind_go m f s) of Inl _ \<Rightarrow> prefix ys' zs | Inr _ \<Rightarrow> ys' = zs)"
  proof (cases r)
    case (Inl h)
    with ms have "bind_go m f s = (Inl h, s')" by (simp add: bind_go_def)
    with us eq show ?thesis
      by (intro exI [of _ us]) (simp add: prefix_prefix)
  next
    case (Inr x)
    obtain r' s'' where fs: "f x s' = (r', s'')" by fastforce
    from f fs obtain vs where vs: "obs s'' = obs s' @ vs" "prefix vs ys" "isl r' \<or> vs = ys"
      by (rule emitsD)
    from Inr us have "us = xs" by simp
    moreover from ms Inr fs have "bind_go m f s = (r', s'')" by (simp add: bind_go_def)
    ultimately show ?thesis using us vs eq
      by (intro exI [of _ "xs @ vs"]) (auto split: sum.splits)
  qed
qed

lemma emits_then [emits_intros]:
  "emits obs m xs \<Longrightarrow> emits obs n ys \<Longrightarrow> zs = xs @ ys \<Longrightarrow> emits obs (then_go m n) zs"
  unfolding then_go_def by (rule emits_bind)

lemma emits_if [emits_intros]:
  "emits obs m xs \<Longrightarrow> emits obs n xs \<Longrightarrow> emits obs (if b then m else n) xs"
  by simp

lemma emits_case_option [emits_intros]:
  "emits obs m xs \<Longrightarrow> (\<And>y. emits obs (n y) xs) \<Longrightarrow>
   emits obs (case p of None \<Rightarrow> m | Some y \<Rightarrow> n y) xs"
  by (simp split: option.splits)

lemma emits_case_prod [emits_intros]:
  "(\<And>x y. emits obs (m x y) xs) \<Longrightarrow> emits obs (case p of (x, y) \<Rightarrow> m x y) xs"
  by (simp split: prod.splits)

lemma emits_seq:
  "list_all2 (emits obs) ms xss \<Longrightarrow> emits obs (seq_go ms) (concat xss)"
proof (induction ms arbitrary: xss)
  case Nil
  then show ?case by (simp add: emits_ret)
next
  case (Cons m ms)
  then obtain xs xss' where xss: "xss = xs # xss'" and m: "emits obs m xs"
    and ms: "list_all2 (emits obs) ms xss'"
    by (auto simp: list_all2_Cons1)
  from m Cons.IH [OF ms] have "emits obs (then_go m (seq_go ms)) (xs @ concat xss')"
    by (rule emits_then) (rule refl)
  with xss show ?case by simp
qed

lemma emits_run:
  assumes "emits obs m xs" and "obs s = []"
  shows "prefix (obs (snd (m s))) xs \<and> (isl (fst (m s)) \<or> obs (snd (m s)) = xs)"
proof -
  obtain r s' where ms: "m s = (r, s')" by fastforce
  from assms(1) ms obtain ys where "obs s' = obs s @ ys" "prefix ys xs" "isl r \<or> ys = xs"
    by (rule emitsD)
  with ms assms(2) show ?thesis by simp
qed

section \<open>Possible outcomes\<close>

lemma halts_in_ret [halts_intros]: "halts_in H (ret x)"
  by (simp add: halts_in_def ret_def)

lemma halts_in_halt [halts_intros]: "h \<in> H \<Longrightarrow> halts_in H (halt_with h)"
  by (simp add: halts_in_def halt_with_def)

lemma halts_in_get_var [halts_intros]: "halts_in H (get_var sel)"
  by (simp add: halts_in_def get_var_def)

lemma halts_in_bind [halts_intros]:
  assumes m: "halts_in H m" and f: "\<And>x. halts_in H (f x)"
  shows "halts_in H (bind_go m f)"
  unfolding halts_in_def
proof (intro allI impI)
  fix s h
  assume b: "fst (bind_go m f s) = Inl h"
  obtain r s' where ms: "m s = (r, s')" by fastforce
  show "h \<in> H"
  proof (cases r)
    case (Inl h')
    with ms b have "fst (m s) = Inl h" by (simp add: bind_go_def)
    with m show ?thesis by (simp add: halts_in_def)
  next
    case (Inr x)
    with ms b have "fst (f x s') = Inl h" by (simp add: bind_go_def)
    with f show ?thesis by (simp add: halts_in_def)
  qed
qed

lemma halts_in_then [halts_intros]: "halts_in H m \<Longrightarrow> halts_in H n \<Longrightarrow> halts_in H (then_go m n)"
  unfolding then_go_def by (rule halts_in_bind)

lemma halts_in_if [halts_intros]: "halts_in H m \<Longrightarrow> halts_in H n \<Longrightarrow> halts_in H (if b then m else n)"
  by simp

lemma halts_in_case_option [halts_intros]:
  "halts_in H m \<Longrightarrow> (\<And>y. halts_in H (n y)) \<Longrightarrow> halts_in H (case p of None \<Rightarrow> m | Some y \<Rightarrow> n y)"
  by (simp split: option.splits)

lemma halts_in_case_prod [halts_intros]:
  "(\<And>x y. halts_in H (m x y)) \<Longrightarrow> halts_in H (case p of (x, y) \<Rightarrow> m x y)"
  by (simp split: prod.splits)

lemma halts_in_seq_Nil [halts_intros]: "halts_in H (seq_go [])"
  by (simp add: halts_in_ret)

lemma halts_in_seq_Cons [halts_intros]:
  "halts_in H m \<Longrightarrow> halts_in H (seq_go ms) \<Longrightarrow> halts_in H (seq_go (m # ms))"
  by (simp add: halts_in_then)

lemma halts_inD: "halts_in H m \<Longrightarrow> fst (m s) = Inl h \<Longrightarrow> h \<in> H"
  by (simp add: halts_in_def)

section \<open>Statements blind to part of the state\<close>

lemma blind_ret [blind_intros]: "blind R (ret x)"
  by (simp add: blind_def ret_def)

lemma blind_halt [blind_intros]: "blind R (halt_with h)"
  by (simp add: blind_def halt_with_def)

lemma blind_bind [blind_intros]:
  assumes m: "blind R m" and f: "\<And>x. blind R (f x)"
  shows "blind R (bind_go m f)"
  unfolding blind_def
proof (intro allI impI)
  fix s t
  assume st: "R s t"
  obtain r s' where ms: "m s = (r, s')" by fastforce
  obtain r' t' where mt: "m t = (r', t')" by fastforce
  from m st have "fst (m s) = fst (m t)" and "R (snd (m s)) (snd (m t))"
    by (simp_all add: blind_def)
  with ms mt have rr: "r' = r" and st': "R s' t'" by simp_all
  show "fst (bind_go m f s) = fst (bind_go m f t) \<and> R (snd (bind_go m f s)) (snd (bind_go m f t))"
  proof (cases r)
    case (Inl h)
    with ms mt rr st' show ?thesis by (simp add: bind_go_def)
  next
    case (Inr x)
    with ms mt rr st' f show ?thesis by (simp add: bind_go_def blind_def)
  qed
qed

lemma blind_then [blind_intros]: "blind R m \<Longrightarrow> blind R n \<Longrightarrow> blind R (then_go m n)"
  unfolding then_go_def by (rule blind_bind)

lemma blind_if [blind_intros]: "blind R m \<Longrightarrow> blind R n \<Longrightarrow> blind R (if b then m else n)"
  by simp

lemma blind_case_option [blind_intros]:
  "blind R m \<Longrightarrow> (\<And>y. blind R (n y)) \<Longrightarrow> blind R (case p of None \<Rightarrow> m | Some y \<Rightarrow> n y)"
  by (simp split: option.splits)

lemma blind_case_prod [blind_intros]:
  "(\<And>x y. blind R (m x y)) \<Longrightarrow> blind R (case p of (x, y) \<Rightarrow> m x y)"
  by (simp split: prod.splits)

lemma blind_seq_Nil [blind_intros]: "blind R (seq_go [])"
  by (simp add: blind_ret)

lemma blind_seq_Cons [blind_intros]:
  "blind R m \<Longrightarrow> blind R (seq_go ms) \<Longrightarrow> blind R (seq_go (m # ms))"
  by (simp add: blind_then)

lemma blindD: "blind R m \<Longrightarrow> R s t \<Longrightarrow> fst (m s) = fst (m t) \<and> R (snd (m s)) (snd (m t))"
  by (simp add: blind_def)

lemma keeps_seq_Nil [keeps_intros]: "keeps f (seq_go [])"
  by (simp add: keeps_ret)

lemma keeps_seq_Cons [keeps_intros]: "keeps f m \<Longrightarrow> keeps f (seq_go ms) \<Longrightarrow> keeps f (seq_go (m # ms))"
  by (simp add: keeps_then)

lemma blind_case_sum [blind_intros]:
  "(\<And>x. blind R (f x)) \<Longrightarrow> (\<And>y. blind R (g y)) \<Longrightarrow> blind R (case_sum f g p)"
  by (simp split: sum.splits)

section \<open>Statements that agree on a set of states\<close>

text \<open>
  Two sequences of statements compute the same when their statements agree pairwise on
  the states satisfying \<open>P\<close> and the first sequence's statements preserve \<open>P\<close>.
\<close>

lemma seq_go_agree:
  assumes "list_all2 (\<lambda>m n. \<forall>s. P s \<longrightarrow> m s = n s \<and> P (snd (m s))) ms ns" and "P s"
  shows "seq_go ms s = seq_go ns s"
  using assms
proof (induction ms ns arbitrary: s rule: list_all2_induct)
  case Nil
  then show ?case by simp
next
  case (Cons m ms n ns)
  obtain r s' where ms: "m s = (r, s')" by fastforce
  from Cons.hyps(1) Cons.prems ms have ns: "n s = (r, s')" and p: "P s'" by auto
  show ?case
  proof (cases r)
    case (Inl h)
    with ms ns show ?thesis by (simp add: then_go_Inl)
  next
    case (Inr x)
    with ms ns Cons.IH [OF p] show ?thesis by (simp add: then_go_Inr)
  qed
qed

section \<open>Triples on normal return\<close>

lemma returns_ret [returns_intros]: "returns_with P (ret x) P"
  by (simp add: returns_with_def ret_def)

lemma returns_halt [returns_intros]: "returns_with P (halt_with h) Q"
  by (simp add: returns_with_def halt_with_def)

lemma returns_get_var [returns_intros]: "returns_with P (get_var sel) P"
  by (simp add: returns_with_def get_var_def)

lemma returns_bind [returns_intros]:
  assumes m: "returns_with P m Q" and f: "\<And>x. returns_with Q (f x) R"
  shows "returns_with P (bind_go m f) R"
  unfolding returns_with_def
proof (intro allI impI)
  fix s y
  assume p: "P s" and b: "fst (bind_go m f s) = Inr y"
  obtain r s' where ms: "m s = (r, s')" by fastforce
  show "R (snd (bind_go m f s))"
  proof (cases r)
    case (Inl h)
    with ms b show ?thesis by (simp add: bind_go_def)
  next
    case (Inr x)
    with ms m p have "Q s'" by (auto simp: returns_with_def)
    with Inr ms b f show ?thesis by (auto simp: bind_go_def returns_with_def)
  qed
qed

lemma returns_then [returns_intros]:
  "returns_with P m Q \<Longrightarrow> returns_with Q n R \<Longrightarrow> returns_with P (then_go m n) R"
  unfolding then_go_def by (rule returns_bind)

lemma returns_seq_Nil [returns_intros]: "returns_with P (seq_go []) P"
  by (simp add: returns_ret)

lemma returns_seq_Cons [returns_intros]:
  "returns_with P m Q \<Longrightarrow> returns_with Q (seq_go ms) R \<Longrightarrow> returns_with P (seq_go (m # ms)) R"
  by (simp add: returns_then)

lemma returns_keeps:
  "keeps f m \<Longrightarrow> returns_with (\<lambda>s. I (f s)) m (\<lambda>s. I (f s))"
  by (simp add: returns_with_def keeps_def)

lemma returns_withD:
  "returns_with P m Q \<Longrightarrow> P s \<Longrightarrow> fst (m s) = Inr x \<Longrightarrow> Q (snd (m s))"
  by (simp add: returns_with_def)

section \<open>Lists\<close>

lemma prefix_take_eq: "prefix xs ys \<longleftrightarrow> xs = take (length xs) ys"
  by (metis append_take_drop_id prefix_def take_append take_all_iff order.refl
      diff_self_eq_0 take0 append_Nil2)

end
