(* ===== verification/AzureSDK.thy ===== *)
theory AzureSDK
  imports Prelude
begin

text \<open>
  The interface of the libraries the sample calls: the request structures it builds
  (\<^verbatim>\<open>arm/resources/resources\<close>, \<^verbatim>\<open>arm/servicebus\<close>), the authentication
  values of \<^verbatim>\<open>go-autorest/autorest/azure\<close>, and the remote calls. The libraries
  are not part of the repository: their behaviour is a parameter, the record
  \<open>'c azure\<close>, where \<open>'c\<close> is the state of the remote cloud. Every lemma about
  the program holds for every such parameter unless it says otherwise. Go pointer fields
  are \<open>option\<close> values (\<open>None\<close> is \<^verbatim>\<open>nil\<close>); a Go call returning
  \<^verbatim>\<open>(result, err)\<close> returns a pair whose second component is the error
  (\<open>None\<close> for \<^verbatim>\<open>nil\<close>, else the text of \<^verbatim>\<open>err.Error()\<close>).
\<close>

section \<open>Request structures\<close>

datatype access_rights = Listen | Manage | Send

datatype sku_tier = SkuTierBasic | SkuTierStandard | SkuTierPremium

datatype sku_name = Basic | Standard | Premium

record sku =
  sku_tier :: sku_tier
  sku_name :: sku_name

record group =
  group_location :: "string option"

record namespace_params =
  namespace_location :: "string option"
  namespace_sku :: "sku option"

record rule_params =
  rule_rights :: "access_rights list option"

record queue_params =
  queue_location :: "string option"
  queue_partitioning :: "bool option"

record topic_params =
  topic_location :: "string option"
  topic_partitioning :: "bool option"

record subscription_params =
  subscription_location :: "string option"

text \<open>The result of \<^verbatim>\<open>NamespacesClient.ListKeys\<close>: five string pointers.\<close>

record access_keys =
  KeyName :: "string option"
  PrimaryKey :: "string option"
  SecondaryKey :: "string option"
  PrimaryConnectionString :: "string option"
  SecondaryConnectionString :: "string option"

definition no_keys :: access_keys where
  "no_keys = \<lparr>KeyName = None, PrimaryKey = None, SecondaryKey = None,
     PrimaryConnectionString = None, SecondaryConnectionString = None\<rparr>"

section \<open>Remote calls\<close>

text \<open>
  One constructor per client method the sample calls, with the arguments in the
  method's order (resource group, namespace, entity names, parameters). The
  \<^verbatim>\<open>cancel\<close> channel arguments, always \<^verbatim>\<open>nil\<close> in the sample, are left out.
\<close>

datatype call =
    GroupsCreateOrUpdate string group
  | GroupsDelete string
  | NamespacesCreateOrUpdate string string namespace_params
  | NamespacesCreateOrUpdateAuthorizationRule string string string rule_params
  | NamespacesListKeys string string string
  | QueuesCreateOrUpdate string string string queue_params
  | TopicsCreateOrUpdate string string string topic_params
  | SubscriptionsCreateOrUpdate string string string string subscription_params

text \<open>
  The result a call returns besides its error. The sample discards every result but the
  keys of \<^verbatim>\<open>ListKeys\<close>; a result of another shape reads as the zero value of the
  keys structure, all of whose pointers are \<^verbatim>\<open>nil\<close>.
\<close>

datatype response = ResourceResponse | ListKeysResponse access_keys

fun keys_of :: "response \<Rightarrow> access_keys" where
  "keys_of (ListKeysResponse k) = k"
| "keys_of ResourceResponse = no_keys"

section \<open>Clients and credentials\<close>

record oauth_config =
  oauth_tenant :: string
  token_endpoint :: string

record sp_token =
  token_oauth :: oauth_config
  token_client_id :: string
  token_secret :: string
  token_resource :: string

datatype client_kind = GroupsClient | NamespacesClient | QueuesClient | TopicsClient
  | SubscriptionsClient

text \<open>
  A management client: its kind, the subscription it addresses and its
  \<^verbatim>\<open>Authorizer\<close> (\<open>None\<close> for the zero value a package variable starts with).
\<close>

record client =
  client_kind :: client_kind
  client_subscription :: string
  client_authorizer :: "sp_token option"

definition zero_client :: "client_kind \<Rightarrow> client" where
  "zero_client k = \<lparr>client_kind = k, client_subscription = '''', client_authorizer = None\<rparr>"

text \<open>\<^verbatim>\<open>New...Client(subID)\<close>: a client of the given kind for the subscription.\<close>

definition new_client :: "client_kind \<Rightarrow> string \<Rightarrow> client" where
  "new_client k sub = \<lparr>client_kind = k, client_subscription = sub, client_authorizer = None\<rparr>"

text \<open>\<^verbatim>\<open>azure.PublicCloud.ResourceManagerEndpoint\<close>.\<close>

definition resource_manager_endpoint :: string where
  "resource_manager_endpoint = ''https://management.azure.com/''"

section \<open>The library as a parameter\<close>

text \<open>
  \<open>oauth_config_for_tenant\<close> is \<^verbatim>\<open>azure.PublicCloud.OAuthConfigForTenant\<close>,
  \<open>new_sp_token\<close> is \<^verbatim>\<open>azure.NewServicePrincipalToken\<close>, and \<open>invoke\<close> is
  a call of a client method, which may change the remote state. Pointer results are
  \<open>option\<close> values, as in Go.
\<close>

record 'c azure =
  oauth_config_for_tenant :: "string \<Rightarrow> oauth_config option \<times> string option"
  new_sp_token :: "oauth_config \<Rightarrow> string \<Rightarrow> string \<Rightarrow> string \<Rightarrow> sp_token option \<times> string option"
  invoke :: "'c \<Rightarrow> client \<Rightarrow> call \<Rightarrow> (response \<times> string option) \<times> 'c"

end
