(* ===== verification/GoRuntime.thy ===== *)
theory GoRuntime
  imports AzureSDK
begin

text \<open>
  The part of the world a Go process sees: its environment, standard input and output,
  the remote cloud, and the log of the remote calls it made (the "mock client" of the
  specification's tests). The record is extended in \<open>Config\<close> with the package
  variables of the sample. The primitives here are the Go standard library calls the
  sample uses: \<^verbatim>\<open>os.Getenv\<close>, \<^verbatim>\<open>os.Exit\<close>, \<^verbatim>\<open>fmt.Printf\<close>/\<^verbatim>\<open>fmt.Print\<close>,
  \<^verbatim>\<open>fmt.Scanln\<close>, the dereference of a pointer, and a call of a client method.
\<close>

record 'c world =
  env :: "string \<rightharpoonup> string"
  stdin :: "string list"
  stdout :: "string list"
  calls :: "(client \<times> call) list"
  cloud :: 'c

text \<open>\<^verbatim>\<open>os.Getenv\<close>: the empty string for an unset variable.\<close>

definition getenv :: "string \<Rightarrow> (('c, 'x) world_scheme, string) go" where
  "getenv name = (\<lambda>s. (Inr (case env s name of None \<Rightarrow> '''' | Some v \<Rightarrow> v), s))"

text \<open>\<^verbatim>\<open>fmt.Printf\<close> and \<^verbatim>\<open>fmt.Print\<close>, after formatting: one output chunk.\<close>

definition printf :: "string \<Rightarrow> (('c, 'x) world_scheme, unit) go" where
  "printf str = (\<lambda>s. (Inr (), s\<lparr>stdout := stdout s @ [str]\<rparr>))"

definition os_exit :: "int \<Rightarrow> ('s, 'a) go" where
  "os_exit n = halt_with (Exit n)"

text \<open>
  \<^verbatim>\<open>fmt.Scanln\<close>: consumes one line of input. At end of input it returns
  \<^verbatim>\<open>io.EOF\<close> at once, consuming nothing; the result is the line read.
\<close>

definition scanln :: "(('c, 'x) world_scheme, string) go" where
  "scanln = (\<lambda>s. case stdin s of
       [] \<Rightarrow> (Inr '''', s)
     | l # ls \<Rightarrow> (Inr l, s\<lparr>stdin := ls\<rparr>))"

text \<open>\<^verbatim>\<open>*p\<close>: a \<^verbatim>\<open>nil\<close> pointer is a run-time panic.\<close>

definition nil_deref_msg :: string where
  "nil_deref_msg = ''runtime error: invalid memory address or nil pointer dereference''"

definition deref :: "'a option \<Rightarrow> ('s, 'a) go" where
  "deref p = (case p of None \<Rightarrow> halt_with (Panic nil_deref_msg) | Some v \<Rightarrow> ret v)"

text \<open>A client method call: logged, then answered by the library and the cloud.\<close>

definition api_call :: "'c azure \<Rightarrow> client \<Rightarrow> call \<Rightarrow>
    (('c, 'x) world_scheme, response \<times> string option) go" where
  "api_call az cl c = (\<lambda>s.
     let (r, cl') = invoke az (cloud s) cl c
     in (Inr r, s\<lparr>calls := calls s @ [(cl, c)], cloud := cl'\<rparr>))"

text \<open>
  The part of the world a remote call changes: the call log and the cloud. Output,
  input and the environment are local to the process.
\<close>

abbreviation remote :: "('c, 'x) world_scheme \<Rightarrow> (client \<times> call) list \<times> 'c" where
  "remote s \<equiv> (calls s, cloud s)"

text \<open>The remote calls made so far, without the clients that made them.\<close>

definition call_log :: "('c, 'x) world_scheme \<Rightarrow> call list" where
  "call_log s = map snd (calls s)"

text \<open>
  Two states that differ at most in their standard input. Every primitive but
  \<^verbatim>\<open>fmt.Scanln\<close> is blind to the input, and \<^verbatim>\<open>fmt.Scanln\<close> is when its line is
  thrown away.
\<close>

definition eq_but_stdin :: "('c, 'x) world_scheme \<Rightarrow> ('c, 'x) world_scheme \<Rightarrow> bool" where
  "eq_but_stdin s t \<longleftrightarrow> s\<lparr>stdin := []\<rparr> = t\<lparr>stdin := []\<rparr>"

text \<open>
  Replaying a log of calls against the library from a cloud state: the cloud after
  them and the error each of them was answered with. Since \<open>invoke\<close> is a function
  of the cloud, the client and the call, the replay of the log of a run from its initial
  cloud gives the answers the run received. \<open>calls_ok az c s\<close>: every call made so far
  was answered without error, and the cloud is the one the calls produced from \<open>c\<close>.
\<close>

fun replay :: "'c azure \<Rightarrow> 'c \<Rightarrow> (client \<times> call) list \<Rightarrow> 'c \<times> string option list" where
  "replay az cl [] = (cl, [])"
| "replay az cl ((k, x) # xs) =
     (case replay az (snd (invoke az cl k x)) xs of (cl', es) \<Rightarrow> (cl', snd (fst (invoke az cl k x)) # es))"

definition calls_ok :: "'c azure \<Rightarrow> 'c \<Rightarrow> ('c, 'x) world_scheme \<Rightarrow> bool" where
  "calls_ok az c s \<longleftrightarrow> replay az c (calls s) = (cloud s, replicate (length (calls s)) None)"

text \<open>
  Two states with the same process world: they may differ only in the variables of the
  program. The primitives are blind to those variables.
\<close>

definition same_world :: "('c, 'x) world_scheme \<Rightarrow> ('c, 'x) world_scheme \<Rightarrow> bool" where
  "same_world s t \<longleftrightarrow> env s = env t \<and> stdin s = stdin t \<and> stdout s = stdout t \<and>
     calls s = calls t \<and> cloud s = cloud t"

section \<open>Evaluation rules\<close>

lemma getenv_apply [go_simps]:
  "getenv name s = (Inr (case env s name of None \<Rightarrow> '''' | Some v \<Rightarrow> v), s)"
  by (simp add: getenv_def)

lemma printf_apply [go_simps]:
  "printf str s = (Inr (), s\<lparr>stdout := stdout s @ [str]\<rparr>)"
  by (simp add: printf_def)

lemma os_exit_apply [go_simps]: "os_exit n s = (Inl (Exit n), s)"
  by (simp add: os_exit_def halt_with_def)

lemma scanln_apply [go_simps]:
  "scanln s = (Inr (case stdin s of [] \<Rightarrow> '''' | l # _ \<Rightarrow> l), s\<lparr>stdin := drop 1 (stdin s)\<rparr>)"
  by (cases "stdin s") (simp_all add: scanln_def)

lemma scanln_Nil: "stdin s = [] \<Longrightarrow> scanln s = (Inr '''', s)"
  by (simp add: scanln_def)

lemma scanln_Cons: "stdin s = l # ls \<Longrightarrow> scanln s = (Inr l, s\<lparr>stdin := ls\<rparr>)"
  by (simp add: scanln_def)

lemma deref_Some [go_simps]: "deref (Some v) s = (Inr v, s)"
  by (simp add: deref_def ret_def)

lemma deref_None [go_simps]: "deref None s = (Inl (Panic nil_deref_msg), s)"
  by (simp add: deref_def halt_with_def)

lemma api_call_apply [go_simps]:
  "api_call az cl c s = (Inr (fst (invoke az (cloud s) cl c)),
     s\<lparr>calls := calls s @ [(cl, c)], cloud := snd (invoke az (cloud s) cl c)\<rparr>)"
  by (simp add: api_call_def split: prod.splits)

text \<open>Frame rules: what each primitive leaves alone.\<close>

lemma getenv_state: "getenv name s = (r, s') \<Longrightarrow> s' = s"
  by (simp add: getenv_def)

lemma printf_calls [simp]: "calls (snd (printf str s)) = calls s"
  by (simp add: printf_def)

lemma scanln_calls [simp]: "calls (snd (scanln s)) = calls s"
  by (simp add: scanln_def split: list.splits)

lemma api_call_calls [simp]:
  "calls (snd (api_call az cl c s)) = calls s @ [(cl, c)]"
  by (simp add: api_call_def split: prod.splits)

lemma keeps_getenv [keeps_intros]: "keeps f (getenv name)"
  by (simp add: keeps_def getenv_def)

lemma keeps_printf [keeps_intros]: "keeps remote (printf str)"
  by (simp add: keeps_def printf_def)

lemma keeps_scanln [keeps_intros]: "keeps remote scanln"
  by (simp add: keeps_def scanln_def split: list.splits)

lemma keeps_os_exit [keeps_intros]: "keeps f (os_exit n)"
  by (simp add: os_exit_def keeps_halt)

lemma keeps_deref [keeps_intros]: "keeps f (deref p)"
  by (simp add: deref_def keeps_intros split: option.splits)

lemma emits_keeps_remote: "keeps remote m \<Longrightarrow> emits call_log m []"
  by (rule emits_keeps) (simp add: keeps_def call_log_def)

lemma emits_printf [emits_intros]: "emits call_log (printf str) []"
  by (intro emits_keeps_remote keeps_intros)

lemma emits_getenv [emits_intros]: "emits call_log (getenv name) []"
  by (intro emits_keeps_remote keeps_intros)

lemma emits_scanln [emits_intros]: "emits call_log scanln []"
  by (intro emits_keeps_remote keeps_intros)

lemma emits_deref [emits_intros]: "emits call_log (deref p) []"
  by (intro emits_keeps_remote keeps_intros)

lemma emits_api_call [emits_intros]: "emits call_log (api_call az cl c) [c]"
  by (simp add: emits_def api_call_apply call_log_def)

text \<open>Outcomes of the primitives: only \<^verbatim>\<open>os.Exit\<close> and a nil dereference stop.\<close>

lemma halts_in_getenv [halts_intros]: "halts_in H (getenv name)"
  by (simp add: halts_in_def getenv_def)

lemma halts_in_printf [halts_intros]: "halts_in H (printf str)"
  by (simp add: halts_in_def printf_def)

lemma halts_in_scanln [halts_intros]: "halts_in H scanln"
  by (simp add: halts_in_def scanln_apply)

lemma halts_in_api_call [halts_intros]: "halts_in H (api_call az cl c)"
  by (simp add: halts_in_def api_call_apply)

lemma halts_in_os_exit [halts_intros]: "Exit n \<in> H \<Longrightarrow> halts_in H (os_exit n)"
  by (simp add: os_exit_def halts_in_halt)

lemma halts_in_deref [halts_intros]: "Panic nil_deref_msg \<in> H \<Longrightarrow> halts_in H (deref p)"
  by (simp add: deref_def halts_intros split: option.splits)

lemma eq_but_stdin_iff:
  "eq_but_stdin s t \<longleftrightarrow> env s = env t \<and> stdout s = stdout t \<and> calls s = calls t \<and>
     cloud s = cloud t \<and> world.more s = world.more t"
  unfolding eq_but_stdin_def by (cases s, cases t) simp

lemma blind_getenv [blind_intros]: "blind eq_but_stdin (getenv name)"
  by (simp add: blind_def getenv_def eq_but_stdin_iff)

lemma blind_printf [blind_intros]: "blind eq_but_stdin (printf str)"
  by (simp add: blind_def printf_def eq_but_stdin_iff)

lemma blind_os_exit [blind_intros]: "blind R (os_exit n)"
  by (simp add: os_exit_def blind_halt)

lemma blind_deref [blind_intros]: "blind R (deref p)"
  by (simp add: deref_def blind_intros split: option.splits)

lemma blind_api_call [blind_intros]: "blind eq_but_stdin (api_call az cl c)"
  by (simp add: blind_def api_call_apply eq_but_stdin_iff)

lemma blind_scanln_discard [blind_intros]: "blind eq_but_stdin (bind_go scanln (\<lambda>input. ret ()))"
  by (simp add: blind_def go_simps eq_but_stdin_iff)

lemma blind_get_var [blind_intros]:
  "(\<And>s t. eq_but_stdin s t \<Longrightarrow> sel s = sel t) \<Longrightarrow> blind eq_but_stdin (get_var sel)"
  by (simp add: blind_def get_var_def)

lemma same_world_refl [simp]: "same_world s s"
  by (simp add: same_world_def)

lemma blind_world_getenv [blind_intros]: "blind same_world (getenv name)"
  by (simp add: blind_def getenv_def same_world_def)

lemma blind_world_printf [blind_intros]: "blind same_world (printf str)"
  by (simp add: blind_def printf_def same_world_def)

lemma blind_world_scanln [blind_intros]: "blind same_world scanln"
  by (simp add: blind_def scanln_apply same_world_def)

lemma blind_world_api_call [blind_intros]: "blind same_world (api_call az cl c)"
  by (simp add: blind_def api_call_apply same_world_def)

text \<open>Replaying one more call.\<close>

lemma replay_snoc:
  "replay az cl (xs @ [(k, x)]) =
     (snd (invoke az (fst (replay az cl xs)) k x),
      snd (replay az cl xs) @ [snd (fst (invoke az (fst (replay az cl xs)) k x))])"
  by (induction xs arbitrary: cl) (auto split: prod.splits)

lemma calls_ok_call:
  "calls_ok az c s \<Longrightarrow> snd (fst (invoke az (cloud s) k x)) = None \<Longrightarrow>
   calls_ok az c (s\<lparr>calls := calls s @ [(k, x)], cloud := snd (invoke az (cloud s) k x)\<rparr>)"
  by (simp add: calls_ok_def replay_snoc replicate_append_same)

lemma returns_calls_ok: "keeps remote m \<Longrightarrow> returns_with (calls_ok az c) m (calls_ok az c)"
  unfolding calls_ok_def [abs_def]
  using returns_keeps [of remote m "\<lambda>(l, cl). replay az c l = (cl, replicate (length l) None)"]
  by simp

end
