(* ===== verification/Config.thy ===== *)
theory Config
  imports GoRuntime
begin

text \<open>
  The package level of \<^verbatim>\<open>src/example.go\<close>: the five client variables and the
  resource-name constants (lines 22--36), and the two helpers every function of the file
  uses, \<^verbatim>\<open>getEnvVarOrExit\<close> (lines 173--182) and \<^verbatim>\<open>onErrorFail\<close>
  (lines 184--190). The state of the program is the process world extended with the
  five client variables.
\<close>

section \<open>Package variables\<close>

record 'c st = "'c world" +
  groupsClient :: client
  namespaceClient :: client
  queuesClient :: client
  topicsClient :: client
  subClient :: client

definition location :: string where "location = ''westus''"
definition resourceGroupName :: string where "resourceGroupName = ''azure-sample''"
definition namespaceName :: string where "namespaceName = ''golangrocksonazure''"
definition authRuleName :: string where "authRuleName = ''authrule''"
definition queueName :: string where "queueName = ''queue1''"
definition topicName :: string where "topicName = ''topic1''"
definition subscriptionName :: string where "subscriptionName = ''sub1''"

text \<open>
  The state of a fresh process: the given environment, input and cloud, no output, no
  call made yet, and the client variables at their zero values.
\<close>

definition start :: "(string \<rightharpoonup> string) \<Rightarrow> string list \<Rightarrow> 'c \<Rightarrow> 'c st" where
  "start e inp c = \<lparr>env = e, stdin = inp, stdout = [], calls = [], cloud = c,
     groupsClient = zero_client GroupsClient, namespaceClient = zero_client NamespacesClient,
     queuesClient = zero_client QueuesClient, topicsClient = zero_client TopicsClient,
     subClient = zero_client SubscriptionsClient\<rparr>"

definition missing_var_msg :: "string \<Rightarrow> string" where
  "missing_var_msg varName = ''Missing environment variable '' @ varName @ nl"

definition getEnvVarOrExit :: "string \<Rightarrow> (('c, 'x) world_scheme, string) go" where
  "getEnvVarOrExit varName = bind_go (getenv varName) (\<lambda>value.
     if value = '''' then then_go (printf (missing_var_msg varName)) (os_exit 1)
     else ret value)"

definition fail_msg :: "string \<Rightarrow> string \<Rightarrow> string" where
  "fail_msg message e = message @ '': '' @ e @ nl"

definition onErrorFail :: "string option \<Rightarrow> string \<Rightarrow> (('c, 'x) world_scheme, unit) go" where
  "onErrorFail err message = (case err of
       None \<Rightarrow> ret ()
     | Some e \<Rightarrow> then_go (printf (fail_msg message e)) (os_exit 1))"

text \<open>A variable counts as set when it holds a non-empty value.\<close>

definition env_set :: "(string \<rightharpoonup> string) \<Rightarrow> string \<Rightarrow> bool" where
  "env_set e name \<longleftrightarrow> (case e name of None \<Rightarrow> False | Some v \<Rightarrow> v \<noteq> '''')"

lemmas names_defs = location_def resourceGroupName_def namespaceName_def authRuleName_def
  queueName_def topicName_def subscriptionName_def

section \<open>Helpers\<close>

section \<open>Behaviour of the helpers\<close>

lemma getEnvVarOrExit_unset [go_simps]:
  "\<not> env_set (env s) name \<Longrightarrow>
   getEnvVarOrExit name s = (Inl (Exit 1), s\<lparr>stdout := stdout s @ [missing_var_msg name]\<rparr>)"
  by (auto simp: getEnvVarOrExit_def env_set_def go_simps split: option.splits)

lemma getEnvVarOrExit_set [go_simps]:
  "env (s :: ('c, 'x) world_scheme) name = Some v \<Longrightarrow> v \<noteq> '''' \<Longrightarrow>
   getEnvVarOrExit name s = (Inr v, s)"
  by (simp add: getEnvVarOrExit_def go_simps)

lemma onErrorFail_nil [go_simps]: "onErrorFail None message s = (Inr (), s)"
  by (simp add: onErrorFail_def go_simps)

lemma onErrorFail_err [go_simps]:
  "onErrorFail (Some e) message s =
     (Inl (Exit 1), s\<lparr>stdout := stdout s @ [fail_msg message e]\<rparr>)"
  by (simp add: onErrorFail_def go_simps)

lemma getEnvVarOrExit_env_set:
  "env_set (env s) name \<Longrightarrow> getEnvVarOrExit name s = (Inr (the (env s name)), s)"
  by (auto simp: getEnvVarOrExit_def env_set_def go_simps split: option.splits)

lemma env_set_Some: "env_set e name \<Longrightarrow> \<exists>v. e name = Some v \<and> v \<noteq> ''''"
  by (auto simp: env_set_def split: option.splits)

lemma keeps_getEnvVarOrExit [keeps_intros]: "keeps remote (getEnvVarOrExit name)"
  unfolding getEnvVarOrExit_def by (intro keeps_intros)

lemma keeps_onErrorFail [keeps_intros]: "keeps remote (onErrorFail err message)"
  unfolding onErrorFail_def by (intro keeps_intros)

lemma emits_getEnvVarOrExit [emits_intros]: "emits call_log (getEnvVarOrExit name) []"
  by (intro emits_keeps_remote keeps_intros)

lemma emits_onErrorFail [emits_intros]: "emits call_log (onErrorFail err message) []"
  by (intro emits_keeps_remote keeps_intros)

lemma halts_in_getEnvVarOrExit [halts_intros]:
  "Exit 1 \<in> H \<Longrightarrow> halts_in H (getEnvVarOrExit name)"
  unfolding getEnvVarOrExit_def by (intro halts_intros)

lemma halts_in_onErrorFail [halts_intros]:
  "Exit 1 \<in> H \<Longrightarrow> halts_in H (onErrorFail err message)"
  unfolding onErrorFail_def by (intro halts_intros)

lemma blind_getEnvVarOrExit [blind_intros]: "blind eq_but_stdin (getEnvVarOrExit name)"
  unfolding getEnvVarOrExit_def by (intro blind_intros)

lemma blind_onErrorFail [blind_intros]: "blind eq_but_stdin (onErrorFail err message)"
  unfolding onErrorFail_def by (intro blind_intros)

text \<open>Two start states that differ only in the input lines.\<close>

lemma eq_but_stdin_start: "eq_but_stdin (start e inp c) (start e inp' c)"
  by (simp add: eq_but_stdin_iff start_def)

lemma eq_but_stdin_st_iff:
  "eq_but_stdin (s :: ('c, 'x) st_scheme) t \<longleftrightarrow>
     env s = env t \<and> stdout s = stdout t \<and> calls s = calls t \<and> cloud s = cloud t \<and>
     groupsClient s = groupsClient t \<and> namespaceClient s = namespaceClient t \<and>
     queuesClient s = queuesClient t \<and> topicsClient s = topicsClient t \<and>
     subClient s = subClient t \<and> st.more s = st.more t"
  unfolding eq_but_stdin_def
  by (cases s rule: st.cases_scheme, cases t rule: st.cases_scheme) simp

end
