(* ===== verification/Stubs.thy ===== *)
theory Stubs
  imports Config
begin

text \<open>
  Stub libraries and environments, the test doubles of the specification's testable
  properties (section 8): an identity provider that accepts every tenant and credential,
  and a management endpoint that answers every call, optionally failing one given call
  with a given error. The cloud state of a stub is \<open>unit\<close>: it records nothing, so
  that only the call log of the process says what was called. They are the concrete
  inputs of the witnesses.
\<close>

definition stub_keys :: access_keys where
  "stub_keys = \<lparr>KeyName = Some ''k1'', PrimaryKey = Some ''p1'', SecondaryKey = Some ''s1'',
     PrimaryConnectionString = Some ''pcs1'', SecondaryConnectionString = Some ''scs1''\<rparr>"

definition stub_oauth :: "string \<Rightarrow> oauth_config option \<times> string option" where
  "stub_oauth t = (Some \<lparr>oauth_tenant = t,
     token_endpoint = ''https://login.microsoftonline.com/'' @ t @ ''/oauth2/token''\<rparr>, None)"

definition stub_token :: "oauth_config \<Rightarrow> string \<Rightarrow> string \<Rightarrow> string \<Rightarrow> sp_token option \<times> string option" where
  "stub_token cfg cid sec res =
     (Some \<lparr>token_oauth = cfg, token_client_id = cid, token_secret = sec, token_resource = res\<rparr>, None)"

definition stub_response :: "access_keys \<Rightarrow> call \<Rightarrow> response" where
  "stub_response keys x = (case x of NamespacesListKeys _ _ _ \<Rightarrow> ListKeysResponse keys | _ \<Rightarrow> ResourceResponse)"

text \<open>Every call succeeds; \<^verbatim>\<open>ListKeys\<close> answers \<open>keys\<close>.\<close>

definition stub_azure :: "access_keys \<Rightarrow> unit azure" where
  "stub_azure keys = \<lparr>oauth_config_for_tenant = stub_oauth, new_sp_token = stub_token,
     invoke = (\<lambda>c cl x. ((stub_response keys x, None), c))\<rparr>"

text \<open>The call \<open>bad\<close> fails with \<open>err\<close>; every other call succeeds.\<close>

definition failing_azure :: "call \<Rightarrow> string \<Rightarrow> unit azure" where
  "failing_azure bad err = \<lparr>oauth_config_for_tenant = stub_oauth, new_sp_token = stub_token,
     invoke = (\<lambda>c cl x. ((stub_response stub_keys x, if x = bad then Some err else None), c))\<rparr>"

text \<open>The identity provider rejects the tenant, or the credentials.\<close>

definition oauth_failing_azure :: "string \<Rightarrow> unit azure" where
  "oauth_failing_azure err = \<lparr>oauth_config_for_tenant = (\<lambda>t. (None, Some err)),
     new_sp_token = stub_token, invoke = (\<lambda>c cl x. ((stub_response stub_keys x, None), c))\<rparr>"

definition token_failing_azure :: "string \<Rightarrow> unit azure" where
  "token_failing_azure err = \<lparr>oauth_config_for_tenant = stub_oauth,
     new_sp_token = (\<lambda>cfg cid sec res. (None, Some err)),
     invoke = (\<lambda>c cl x. ((stub_response stub_keys x, None), c))\<rparr>"

text \<open>An environment with the four variables set.\<close>

definition stub_env :: "string \<rightharpoonup> string" where
  "stub_env = [''AZURE_SUBSCRIPTION_ID'' \<mapsto> ''sub-0001'', ''AZURE_TENANT_ID'' \<mapsto> ''tenant-01'',
     ''AZURE_CLIENT_ID'' \<mapsto> ''client-01'', ''AZURE_CLIENT_SECRET'' \<mapsto> ''secret-01'']"

end
