(* ===== verification/Startup.thy ===== *)
theory Startup
  imports Config Stubs
begin

text \<open>
  Start-up of \<^verbatim>\<open>src/example.go\<close>: the package \<^verbatim>\<open>init\<close> function (lines 38--51),
  which reads the credentials from the environment, builds the OAuth configuration and
  the service-principal token, and \<^verbatim>\<open>createClients\<close> (lines 156--171), which stores
  five authorised clients in the package variables. The lemmas give the outcome of
  \<open>init\<close> on each of its branches and show that it never makes a remote call.
\<close>

section \<open>Operations\<close>

definition createClients :: "string \<Rightarrow> sp_token option \<Rightarrow> (('c, 'x) st_scheme, unit) go" where
  "createClients subID token = (\<lambda>s. (Inr (), s\<lparr>
     groupsClient := (new_client GroupsClient subID)\<lparr>client_authorizer := token\<rparr>,
     namespaceClient := (new_client NamespacesClient subID)\<lparr>client_authorizer := token\<rparr>,
     queuesClient := (new_client QueuesClient subID)\<lparr>client_authorizer := token\<rparr>,
     topicsClient := (new_client TopicsClient subID)\<lparr>client_authorizer := token\<rparr>,
     subClient := (new_client SubscriptionsClient subID)\<lparr>client_authorizer := token\<rparr>\<rparr>))"

definition init :: "'c azure \<Rightarrow> (('c, 'x) st_scheme, unit) go" where
  "init az =
     bind_go (getEnvVarOrExit ''AZURE_SUBSCRIPTION_ID'') (\<lambda>subscriptionID.
     bind_go (getEnvVarOrExit ''AZURE_TENANT_ID'') (\<lambda>tenantID.
     (case oauth_config_for_tenant az tenantID of (oauthConfig, err) \<Rightarrow>
     then_go (onErrorFail err ''OAuthConfigForTenant failed'')
     (bind_go (getEnvVarOrExit ''AZURE_CLIENT_ID'') (\<lambda>clientID.
      bind_go (getEnvVarOrExit ''AZURE_CLIENT_SECRET'') (\<lambda>clientSecret.
      bind_go (deref oauthConfig) (\<lambda>cfg.
      (case new_sp_token az cfg clientID clientSecret resource_manager_endpoint of
         (spToken, err) \<Rightarrow>
      then_go (onErrorFail err ''NewServicePrincipalToken failed'')
        (createClients subscriptionID spToken)))))))))"

text \<open>The required variables, in the order \<open>init\<close> reads them.\<close>

definition required_vars :: "string list" where
  "required_vars = [''AZURE_SUBSCRIPTION_ID'', ''AZURE_TENANT_ID'', ''AZURE_CLIENT_ID'',
     ''AZURE_CLIENT_SECRET'']"

text \<open>
  The five clients after \<open>createClients sub tok\<close>: each of its own kind, addressing
  the subscription and carrying the token.
\<close>

definition client_ok :: "client_kind \<Rightarrow> string \<Rightarrow> sp_token option \<Rightarrow> client \<Rightarrow> bool" where
  "client_ok k sub tok c \<longleftrightarrow>
     client_kind c = k \<and> client_subscription c = sub \<and> client_authorizer c = tok"

definition clients_configured :: "string \<Rightarrow> sp_token option \<Rightarrow> ('c, 'x) st_scheme \<Rightarrow> bool" where
  "clients_configured sub tok s \<longleftrightarrow>
     client_ok GroupsClient sub tok (groupsClient s) \<and>
     client_ok NamespacesClient sub tok (namespaceClient s) \<and>
     client_ok QueuesClient sub tok (queuesClient s) \<and>
     client_ok TopicsClient sub tok (topicsClient s) \<and>
     client_ok SubscriptionsClient sub tok (subClient s)"

text \<open>
  The hypotheses under which \<open>init\<close> reaches \<open>createClients\<close>: the four variables
  hold non-empty values and both library calls succeed.
\<close>

definition init_inputs_ok :: "'c azure \<Rightarrow> (string \<rightharpoonup> string) \<Rightarrow> string \<Rightarrow> sp_token \<Rightarrow> bool" where
  "init_inputs_ok az e sub tok \<longleftrightarrow>
     (case (e ''AZURE_SUBSCRIPTION_ID'', e ''AZURE_TENANT_ID'', e ''AZURE_CLIENT_ID'',
            e ''AZURE_CLIENT_SECRET'') of
        (Some s, Some t, Some c, Some k) \<Rightarrow>
          s = sub \<and> s \<noteq> '''' \<and> t \<noteq> '''' \<and> c \<noteq> '''' \<and> k \<noteq> '''' \<and>
          (case oauth_config_for_tenant az t of
             (Some cfg, None) \<Rightarrow> new_sp_token az cfg c k resource_manager_endpoint = (Some tok, None)
           | _ \<Rightarrow> False)
      | _ \<Rightarrow> False)"

text \<open>The OAuth configuration for the tenant, when the tenant is set, is built.\<close>

definition oauth_ok :: "'c azure \<Rightarrow> (string \<rightharpoonup> string) \<Rightarrow> bool" where
  "oauth_ok az e \<longleftrightarrow> (case e ''AZURE_TENANT_ID'' of None \<Rightarrow> True
     | Some t \<Rightarrow> (case oauth_config_for_tenant az t of (Some _, None) \<Rightarrow> True | _ \<Rightarrow> False))"

section \<open>Evaluation of init\<close>

lemma createClients_apply [go_simps]:
  "createClients subID token s = (Inr (), s\<lparr>
     groupsClient := (new_client GroupsClient subID)\<lparr>client_authorizer := token\<rparr>,
     namespaceClient := (new_client NamespacesClient subID)\<lparr>client_authorizer := token\<rparr>,
     queuesClient := (new_client QueuesClient subID)\<lparr>client_authorizer := token\<rparr>,
     topicsClient := (new_client TopicsClient subID)\<lparr>client_authorizer := token\<rparr>,
     subClient := (new_client SubscriptionsClient subID)\<lparr>client_authorizer := token\<rparr>\<rparr>)"
  by (simp add: createClients_def)

lemma keeps_createClients [keeps_intros]: "keeps remote (createClients subID token)"
  by (simp add: keeps_def createClients_def)

lemma keeps_init [keeps_intros]: "keeps remote (init az)"
  unfolding init_def by (intro keeps_intros)

lemma createClients_configured:
  "createClients sub tok s = (r, s') \<Longrightarrow> clients_configured sub tok s'"
  by (auto simp: createClients_def clients_configured_def client_ok_def new_client_def)

lemma init_ok:
  assumes "init_inputs_ok az (env s) sub tok"
  shows "init az s = createClients sub (Some tok) s"
proof -
  obtain t c k cfg where
    e: "env s ''AZURE_SUBSCRIPTION_ID'' = Some sub" "env s ''AZURE_TENANT_ID'' = Some t"
       "env s ''AZURE_CLIENT_ID'' = Some c" "env s ''AZURE_CLIENT_SECRET'' = Some k"
    and ne: "sub \<noteq> ''''" "t \<noteq> ''''" "c \<noteq> ''''" "k \<noteq> ''''"
    and oauth: "oauth_config_for_tenant az t = (Some cfg, None)"
    and token: "new_sp_token az cfg c k resource_manager_endpoint = (Some tok, None)"
    using assms
    by (auto simp: init_inputs_ok_def split: option.splits prod.splits)
  then show ?thesis by (simp add: init_def go_simps)
qed

text \<open>
  \<open>init\<close> stops only through \<^verbatim>\<open>os.Exit(1)\<close> or the dereference of a
  \<^verbatim>\<open>nil\<close> OAuth configuration, and never reads the standard input.
\<close>

lemma halts_in_createClients [halts_intros]: "halts_in H (createClients sub tok)"
  by (simp add: halts_in_def createClients_def)

lemma halts_in_init [halts_intros]:
  "Exit 1 \<in> H \<Longrightarrow> Panic nil_deref_msg \<in> H \<Longrightarrow> halts_in H (init az)"
  unfolding init_def by (intro halts_intros)

lemma blind_createClients [blind_intros]: "blind eq_but_stdin (createClients sub tok)"
  by (simp add: blind_def createClients_def eq_but_stdin_st_iff)

lemma blind_init [blind_intros]: "blind eq_but_stdin (init az)"
  unfolding init_def by (intro blind_intros)

section \<open>Start-up claims\<close>

lemma oauth_okE:
  assumes "oauth_ok az (env s)" and "env_set (env s) ''AZURE_TENANT_ID''"
  obtains cfg where "oauth_config_for_tenant az (the (env s ''AZURE_TENANT_ID'')) = (Some cfg, None)"
  using assms by (auto simp: oauth_ok_def env_set_def split: option.splits prod.splits)

text \<open>
  C4. A required variable that is unset or empty, while the variables \<open>init\<close> reads
  before it are set and the OAuth configuration can be built, stops the process with
  status 1 after it printed exactly the line naming that variable; nothing else changes,
  in particular no remote call is made and no client is created.
\<close>

theorem init_missing_variable:
  assumes v: "v \<in> set required_vars"
    and unset: "\<not> env_set (env s) v"
    and earlier: "\<forall>u \<in> set (takeWhile (\<lambda>u. u \<noteq> v) required_vars). env_set (env s) u"
    and oauth: "oauth_ok az (env s)"
  shows "init az s = (Inl (Exit 1), s\<lparr>stdout := stdout s @ [missing_var_msg v]\<rparr>)"
proof -
  from v consider "v = ''AZURE_SUBSCRIPTION_ID''" | "v = ''AZURE_TENANT_ID''"
    | "v = ''AZURE_CLIENT_ID''" | "v = ''AZURE_CLIENT_SECRET''"
    by (auto simp: required_vars_def)
  then show ?thesis
  proof cases
    case 1
    with unset show ?thesis by (simp add: init_def go_simps getEnvVarOrExit_unset)
  next
    case 2
    with unset earlier show ?thesis
      by (simp add: init_def go_simps getEnvVarOrExit_unset getEnvVarOrExit_env_set required_vars_def)
  next
    case 3
    with earlier have set: "env_set (env s) ''AZURE_SUBSCRIPTION_ID''"
      "env_set (env s) ''AZURE_TENANT_ID''"
      by (simp_all add: required_vars_def)
    from oauth set(2) obtain cfg where
      "oauth_config_for_tenant az (the (env s ''AZURE_TENANT_ID'')) = (Some cfg, None)"
      by (rule oauth_okE)
    with 3 unset set show ?thesis
      by (simp add: init_def go_simps getEnvVarOrExit_unset getEnvVarOrExit_env_set)
  next
    case 4
    with earlier have set: "env_set (env s) ''AZURE_SUBSCRIPTION_ID''"
      "env_set (env s) ''AZURE_TENANT_ID''" "env_set (env s) ''AZURE_CLIENT_ID''"
      by (simp_all add: required_vars_def)
    from oauth set(2) obtain cfg where
      "oauth_config_for_tenant az (the (env s ''AZURE_TENANT_ID'')) = (Some cfg, None)"
      by (rule oauth_okE)
    with 4 unset set show ?thesis
      by (simp add: init_def go_simps getEnvVarOrExit_unset getEnvVarOrExit_env_set)
  qed
qed

theorem init_missing_variable_witness:
  "init (stub_azure stub_keys)
     (start [''AZURE_SUBSCRIPTION_ID'' \<mapsto> ''sub-0001'', ''AZURE_TENANT_ID'' \<mapsto> ''tenant-01'',
             ''AZURE_CLIENT_SECRET'' \<mapsto> ''secret-01''] [] ()) =
   (Inl (Exit 1), (start [''AZURE_SUBSCRIPTION_ID'' \<mapsto> ''sub-0001'', ''AZURE_TENANT_ID'' \<mapsto> ''tenant-01'',
             ''AZURE_CLIENT_SECRET'' \<mapsto> ''secret-01''] [] ())
        \<lparr>stdout := [missing_var_msg ''AZURE_CLIENT_ID'']\<rparr>)"
proof -
  let ?s = "start [''AZURE_SUBSCRIPTION_ID'' \<mapsto> ''sub-0001'', ''AZURE_TENANT_ID'' \<mapsto> ''tenant-01'',
             ''AZURE_CLIENT_SECRET'' \<mapsto> ''secret-01''] [] ()"
  have h1: "''AZURE_CLIENT_ID'' \<in> set required_vars" by (simp add: required_vars_def)
  have h2: "\<not> env_set (env ?s) ''AZURE_CLIENT_ID''" by (simp add: env_set_def start_def)
  have h3: "\<forall>u \<in> set (takeWhile (\<lambda>u. u \<noteq> ''AZURE_CLIENT_ID'') required_vars). env_set (env ?s) u"
    by (simp add: required_vars_def env_set_def start_def)
  have h4: "oauth_ok (stub_azure stub_keys) (env ?s)"
    by (simp add: oauth_ok_def start_def stub_azure_def stub_oauth_def)
  from init_missing_variable [OF h1 h2 h3 h4] show ?thesis by (simp add: start_def)
qed

text \<open>
  C5. Once the subscription and tenant variables are set, a failure to build the OAuth
  configuration stops the process with status 1 and the line
  \<open>OAuthConfigForTenant failed: err\<close>, whatever the client id and secret variables
  hold: \<open>init\<close> builds the configuration before it reads them, so an unset
  \<^verbatim>\<open>AZURE_CLIENT_ID\<close> is then not the variable reported.
\<close>

theorem init_oauth_failure:
  assumes set: "env_set (env s) ''AZURE_SUBSCRIPTION_ID''" "env_set (env s) ''AZURE_TENANT_ID''"
    and fails: "snd (oauth_config_for_tenant az (the (env s ''AZURE_TENANT_ID''))) = Some err"
  shows "init az s =
    (Inl (Exit 1), s\<lparr>stdout := stdout s @ [fail_msg ''OAuthConfigForTenant failed'' err]\<rparr>)"
proof -
  obtain cfg where "oauth_config_for_tenant az (the (env s ''AZURE_TENANT_ID'')) = (cfg, Some err)"
    using fails by (cases "oauth_config_for_tenant az (the (env s ''AZURE_TENANT_ID''))") simp
  with set show ?thesis by (simp add: init_def go_simps getEnvVarOrExit_env_set)
qed

theorem init_oauth_failure_witness:
  "init (oauth_failing_azure ''invalid tenant'')
     (start [''AZURE_SUBSCRIPTION_ID'' \<mapsto> ''sub-0001'', ''AZURE_TENANT_ID'' \<mapsto> ''bad/tenant''] [] ()) =
   (Inl (Exit 1), (start [''AZURE_SUBSCRIPTION_ID'' \<mapsto> ''sub-0001'', ''AZURE_TENANT_ID'' \<mapsto> ''bad/tenant''] [] ())
      \<lparr>stdout := [fail_msg ''OAuthConfigForTenant failed'' ''invalid tenant'']\<rparr>) \<and>
   fail_msg ''OAuthConfigForTenant failed'' ''invalid tenant'' \<noteq> missing_var_msg ''AZURE_CLIENT_ID''"
proof -
  let ?s = "start [''AZURE_SUBSCRIPTION_ID'' \<mapsto> ''sub-0001'', ''AZURE_TENANT_ID'' \<mapsto> ''bad/tenant''] [] ()"
  have h1: "env_set (env ?s) ''AZURE_SUBSCRIPTION_ID''" "env_set (env ?s) ''AZURE_TENANT_ID''"
    by (simp_all add: env_set_def start_def)
  have h2: "snd (oauth_config_for_tenant (oauth_failing_azure ''invalid tenant'')
      (the (env ?s ''AZURE_TENANT_ID''))) = Some ''invalid tenant''"
    by (simp add: oauth_failing_azure_def)
  from init_oauth_failure [OF h1 h2] show ?thesis
    by (simp add: start_def fail_msg_def missing_var_msg_def)
qed

text \<open>
  C6. With the four variables set and the OAuth configuration built, a failure to build
  the service-principal token stops the process with status 1 and the line
  \<open>NewServicePrincipalToken failed: err\<close>, before any client exists or any remote
  call is made.
\<close>

theorem init_token_failure:
  assumes set: "env_set (env s) ''AZURE_SUBSCRIPTION_ID''" "env_set (env s) ''AZURE_TENANT_ID''"
      "env_set (env s) ''AZURE_CLIENT_ID''" "env_set (env s) ''AZURE_CLIENT_SECRET''"
    and oauth: "oauth_config_for_tenant az (the (env s ''AZURE_TENANT_ID'')) = (Some cfg, None)"
    and fails: "snd (new_sp_token az cfg (the (env s ''AZURE_CLIENT_ID''))
      (the (env s ''AZURE_CLIENT_SECRET'')) resource_manager_endpoint) = Some err"
  shows "init az s =
    (Inl (Exit 1), s\<lparr>stdout := stdout s @ [fail_msg ''NewServicePrincipalToken failed'' err]\<rparr>)"
proof -
  obtain tok where "new_sp_token az cfg (the (env s ''AZURE_CLIENT_ID''))
      (the (env s ''AZURE_CLIENT_SECRET'')) resource_manager_endpoint = (tok, Some err)"
    using fails by (cases "new_sp_token az cfg (the (env s ''AZURE_CLIENT_ID''))
      (the (env s ''AZURE_CLIENT_SECRET'')) resource_manager_endpoint") simp
  with set oauth show ?thesis by (simp add: init_def go_simps getEnvVarOrExit_env_set)
qed

theorem init_token_failure_witness:
  "init (token_failing_azure ''invalid client secret'') (start stub_env [] ()) =
   (Inl (Exit 1), (start stub_env [] ())
      \<lparr>stdout := [fail_msg ''NewServicePrincipalToken failed'' ''invalid client secret'']\<rparr>)"
proof -
  let ?s = "start stub_env [] ()" and ?az = "token_failing_azure ''invalid client secret''"
  have h1: "env_set (env ?s) ''AZURE_SUBSCRIPTION_ID''" "env_set (env ?s) ''AZURE_TENANT_ID''"
      "env_set (env ?s) ''AZURE_CLIENT_ID''" "env_set (env ?s) ''AZURE_CLIENT_SECRET''"
    by (simp_all add: env_set_def start_def stub_env_def)
  have h2: "oauth_config_for_tenant ?az (the (env ?s ''AZURE_TENANT_ID'')) =
      (Some \<lparr>oauth_tenant = ''tenant-01'',
        token_endpoint = ''https://login.microsoftonline.com/tenant-01/oauth2/token''\<rparr>, None)"
    by (simp add: token_failing_azure_def stub_oauth_def start_def stub_env_def)
  have h3: "snd (new_sp_token ?az \<lparr>oauth_tenant = ''tenant-01'',
        token_endpoint = ''https://login.microsoftonline.com/tenant-01/oauth2/token''\<rparr>
      (the (env ?s ''AZURE_CLIENT_ID'')) (the (env ?s ''AZURE_CLIENT_SECRET''))
      resource_manager_endpoint) = Some ''invalid client secret''"
    by (simp add: token_failing_azure_def)
  from init_token_failure [OF h1 h2 h3] show ?thesis by (simp add: start_def)
qed

text \<open>
  C7. When the four variables are set and both library calls succeed, \<open>init\<close> returns
  normally, prints nothing, makes no remote call, and leaves each of the five client
  variables a client of its own kind for the subscription id, carrying the token.
\<close>

theorem init_configures_clients:
  assumes "init_inputs_ok az (env s) sub tok"
  shows "fst (init az s) = Inr () \<and> clients_configured sub (Some tok) (snd (init az s)) \<and>
    stdout (snd (init az s)) = stdout s \<and> calls (snd (init az s)) = calls s"
proof -
  have i: "init az s = createClients sub (Some tok) s" using assms by (rule init_ok)
  then have "clients_configured sub (Some tok) (snd (init az s))"
    by (metis createClients_configured prod.collapse)
  with i show ?thesis by (simp add: createClients_apply)
qed

theorem init_configures_clients_witness:
  "fst (init (stub_azure stub_keys) (start stub_env [] ())) = Inr () \<and>
   clients_configured ''sub-0001'' (Some \<lparr>token_oauth = \<lparr>oauth_tenant = ''tenant-01'',
      token_endpoint = ''https://login.microsoftonline.com/tenant-01/oauth2/token''\<rparr>,
    token_client_id = ''client-01'', token_secret = ''secret-01'',
    token_resource = resource_manager_endpoint\<rparr>) (snd (init (stub_azure stub_keys) (start stub_env [] ())))"
  using init_configures_clients [of "stub_azure stub_keys" "start stub_env [] ()" "''sub-0001''"]
  by (simp add: init_inputs_ok_def start_def stub_env_def stub_azure_def stub_oauth_def stub_token_def)

end
