(* ===== verification/Provisioning.thy ===== *)
theory Provisioning
  imports Startup Stubs
begin

text \<open>
  The provisioning sequence of \<^verbatim>\<open>src/example.go\<close>: the request structures each
  step builds, the eight step functions (lines 69--154), \<^verbatim>\<open>main\<close> (lines 53--67),
  and the whole process, \<^verbatim>\<open>init\<close> followed by \<^verbatim>\<open>main\<close> as the Go run-time
  runs them. The first group of lemmas shows which remote calls each step can make; the
  second evaluates the steps (seven of them are instances of one shape,
  \<open>checked_step\<close>), and a third shows that a step that returns had its call
  answered without error. Together they give the run in which every call succeeds, the run
  that stops at the first failed call, and the ordering theorem: every run issues a
  prefix of the eight calls in their fixed order.
\<close>

section \<open>Request parameters\<close>

definition groupParams :: group where
  "groupParams = \<lparr>group_location = Some location\<rparr>"

definition namespaceParams :: namespace_params where
  "namespaceParams = \<lparr>namespace_location = Some location,
     namespace_sku = Some \<lparr>sku_tier = SkuTierStandard, sku_name = Standard\<rparr>\<rparr>"

definition ruleParams :: rule_params where
  "ruleParams = \<lparr>rule_rights = Some [Listen, Manage, Send]\<rparr>"

definition queueParams :: queue_params where
  "queueParams = \<lparr>queue_location = Some location, queue_partitioning = Some True\<rparr>"

definition topicsParams :: topic_params where
  "topicsParams = \<lparr>topic_location = Some location, topic_partitioning = Some True\<rparr>"

definition subParams :: subscription_params where
  "subParams = \<lparr>subscription_location = Some location\<rparr>"

section \<open>Steps\<close>

definition createResourceGroup :: "'c azure \<Rightarrow> (('c, 'x) st_scheme, unit) go" where
  "createResourceGroup az =
     then_go (printf (''Creating resource group '' @ squote resourceGroupName @ ''...'' @ nl))
     (bind_go (get_var groupsClient) (\<lambda>client.
      bind_go (api_call az client (GroupsCreateOrUpdate resourceGroupName groupParams))
      (\<lambda>(_, err). onErrorFail err ''Group create failed'')))"

definition createNamespace :: "'c azure \<Rightarrow> (('c, 'x) st_scheme, unit) go" where
  "createNamespace az =
     then_go (printf (''Creating namespace '' @ squote namespaceName @ ''...'' @ nl))
     (bind_go (get_var namespaceClient) (\<lambda>client.
      bind_go (api_call az client
        (NamespacesCreateOrUpdate resourceGroupName namespaceName namespaceParams))
      (\<lambda>(_, err). onErrorFail err ''Namespace create failed'')))"

definition createAuthRule :: "'c azure \<Rightarrow> (('c, 'x) st_scheme, unit) go" where
  "createAuthRule az =
     then_go (printf (''Creating authorization rule '' @ squote authRuleName @
                      '' for namespace '' @ squote namespaceName @ ''...'' @ nl))
     (bind_go (get_var namespaceClient) (\<lambda>client.
      bind_go (api_call az client (NamespacesCreateOrUpdateAuthorizationRule
                 resourceGroupName namespaceName authRuleName ruleParams))
      (\<lambda>(_, err). onErrorFail err ''Authorization rule create failed'')))"

text \<open>
  The five lines \<^verbatim>\<open>listKeys\<close> prints after a successful call; each dereferences one
  pointer of the result.
\<close>

definition print_keys :: "access_keys \<Rightarrow> (('c, 'x) st_scheme, unit) go" where
  "print_keys keys = seq_go [
     bind_go (deref (KeyName keys)) (\<lambda>v. printf (tab @ ''Key name: '' @ v @ nl)),
     bind_go (deref (PrimaryKey keys)) (\<lambda>v. printf (tab @ ''Primary key: '' @ v @ nl)),
     bind_go (deref (SecondaryKey keys)) (\<lambda>v. printf (tab @ ''Secondary key: '' @ v @ nl)),
     bind_go (deref (PrimaryConnectionString keys))
       (\<lambda>v. printf (tab @ ''Primary connection string: '' @ v @ nl)),
     bind_go (deref (SecondaryConnectionString keys))
       (\<lambda>v. printf (tab @ ''Secondary connection string: '' @ v @ nl))]"

definition listKeys :: "'c azure \<Rightarrow> (('c, 'x) st_scheme, unit) go" where
  "listKeys az =
     then_go (printf (''List keys for '' @ squote namespaceName @ '' namespace...'' @ nl))
     (bind_go (get_var namespaceClient) (\<lambda>client.
      bind_go (api_call az client (NamespacesListKeys resourceGroupName namespaceName authRuleName))
      (\<lambda>(keys, err). then_go (onErrorFail err ''List keys failed'') (print_keys (keys_of keys)))))"

definition createQueue :: "'c azure \<Rightarrow> (('c, 'x) st_scheme, unit) go" where
  "createQueue az =
     then_go (printf (''Creating queue '' @ squote queueName @ ''...'' @ nl))
     (bind_go (get_var queuesClient) (\<lambda>client.
      bind_go (api_call az client
        (QueuesCreateOrUpdate resourceGroupName namespaceName queueName queueParams))
      (\<lambda>(_, err). onErrorFail err ''Queue create failed'')))"

definition createTopic :: "'c azure \<Rightarrow> (('c, 'x) st_scheme, unit) go" where
  "createTopic az =
     then_go (printf (''Creating topic '' @ squote topicName @ ''...'' @ nl))
     (bind_go (get_var topicsClient) (\<lambda>client.
      bind_go (api_call az client
        (TopicsCreateOrUpdate resourceGroupName namespaceName topicName topicsParams))
      (\<lambda>(_, err). onErrorFail err ''Topic create failed'')))"

definition createSubscription :: "'c azure \<Rightarrow> (('c, 'x) st_scheme, unit) go" where
  "createSubscription az =
     then_go (printf (''Creating subscription '' @ squote subscriptionName @ ''...'' @ nl))
     (bind_go (get_var subClient) (\<lambda>client.
      bind_go (api_call az client (SubscriptionsCreateOrUpdate
                 resourceGroupName namespaceName topicName subscriptionName subParams))
      (\<lambda>(_, err). onErrorFail err ''Subscription create failed'')))"

definition deleteResourceGroup :: "'c azure \<Rightarrow> (('c, 'x) st_scheme, unit) go" where
  "deleteResourceGroup az =
     then_go (printf (''Deleting resource group '' @ squote resourceGroupName @ ''...'' @ nl))
     (bind_go (get_var groupsClient) (\<lambda>client.
      bind_go (api_call az client (GroupsDelete resourceGroupName))
      (\<lambda>(_, err). onErrorFail err ''Group delete failed'')))"

section \<open>main and the process\<close>

definition prompt_msg :: string where
  "prompt_msg = ''Press enter to delete all the resources created in this sample...''"

definition main :: "'c azure \<Rightarrow> (('c, 'x) st_scheme, unit) go" where
  "main az = seq_go [
     createResourceGroup az,
     createNamespace az,
     createAuthRule az,
     listKeys az,
     createQueue az,
     createTopic az,
     createSubscription az,
     printf prompt_msg,
     bind_go scanln (\<lambda>input. ret ()),
     deleteResourceGroup az]"

text \<open>
  A run of the program: the Go run-time calls the package \<^verbatim>\<open>init\<close> and then
  \<^verbatim>\<open>main\<close>, from a fresh process with the given environment, input and cloud.
\<close>

definition run :: "'c azure \<Rightarrow> (string \<rightharpoonup> string) \<Rightarrow> string list \<Rightarrow> 'c \<Rightarrow> (halt + unit) \<times> 'c st" where
  "run az e inp c = then_go (init az) (main az) (start e inp c)"

text \<open>The eight remote calls of a complete run, in the order of \<^verbatim>\<open>main\<close>.\<close>

definition canonical_calls :: "call list" where
  "canonical_calls = [
     GroupsCreateOrUpdate resourceGroupName groupParams,
     NamespacesCreateOrUpdate resourceGroupName namespaceName namespaceParams,
     NamespacesCreateOrUpdateAuthorizationRule resourceGroupName namespaceName authRuleName ruleParams,
     NamespacesListKeys resourceGroupName namespaceName authRuleName,
     QueuesCreateOrUpdate resourceGroupName namespaceName queueName queueParams,
     TopicsCreateOrUpdate resourceGroupName namespaceName topicName topicsParams,
     SubscriptionsCreateOrUpdate resourceGroupName namespaceName topicName subscriptionName subParams,
     GroupsDelete resourceGroupName]"

text \<open>The progress line each step prints first, and the message it fails with.\<close>

definition progress_lines :: "string list" where
  "progress_lines = [
     ''Creating resource group '' @ squote resourceGroupName @ ''...'' @ nl,
     ''Creating namespace '' @ squote namespaceName @ ''...'' @ nl,
     ''Creating authorization rule '' @ squote authRuleName @
       '' for namespace '' @ squote namespaceName @ ''...'' @ nl,
     ''List keys for '' @ squote namespaceName @ '' namespace...'' @ nl,
     ''Creating queue '' @ squote queueName @ ''...'' @ nl,
     ''Creating topic '' @ squote topicName @ ''...'' @ nl,
     ''Creating subscription '' @ squote subscriptionName @ ''...'' @ nl,
     ''Deleting resource group '' @ squote resourceGroupName @ ''...'' @ nl]"

definition failure_messages :: "string list" where
  "failure_messages = [''Group create failed'', ''Namespace create failed'',
     ''Authorization rule create failed'', ''List keys failed'', ''Queue create failed'',
     ''Topic create failed'', ''Subscription create failed'', ''Group delete failed'']"

text \<open>The lines \<open>listKeys\<close> prints for a result whose five pointers are set.\<close>

definition key_lines :: "string \<Rightarrow> string \<Rightarrow> string \<Rightarrow> string \<Rightarrow> string \<Rightarrow> string list" where
  "key_lines a b d f g = [tab @ ''Key name: '' @ a @ nl,
     tab @ ''Primary key: '' @ b @ nl, tab @ ''Secondary key: '' @ d @ nl,
     tab @ ''Primary connection string: '' @ f @ nl,
     tab @ ''Secondary connection string: '' @ g @ nl]"

text \<open>The kind of client each of the eight calls goes through, in the code.\<close>

definition call_kinds :: "client_kind list" where
  "call_kinds = [GroupsClient, NamespacesClient, NamespacesClient, NamespacesClient,
     QueuesClient, TopicsClient, SubscriptionsClient, GroupsClient]"

text \<open>
  Seven of the eight steps have one shape: print a progress line, read a client
  variable, make one call, and pass its error to \<open>onErrorFail\<close>. \<open>checked_step\<close>
  is that shape, \<open>after_call\<close> the state after the call, and \<open>step_eqs\<close> shows
  each of the seven steps is an instance of it.
\<close>

definition after_call :: "'c azure \<Rightarrow> string \<Rightarrow> client \<Rightarrow> call \<Rightarrow> ('c, 'x) world_scheme \<Rightarrow> ('c, 'x) world_scheme" where
  "after_call az msg cl c s =
     s\<lparr>stdout := stdout s @ [msg], calls := calls s @ [(cl, c)], cloud := snd (invoke az (cloud s) cl c)\<rparr>"

definition checked_step :: "'c azure \<Rightarrow> string \<Rightarrow> (('c, 'x) st_scheme \<Rightarrow> client) \<Rightarrow> call \<Rightarrow> string \<Rightarrow>
    (('c, 'x) st_scheme, unit) go" where
  "checked_step az msg sel c fail =
     then_go (printf msg) (bind_go (get_var sel) (\<lambda>client.
       bind_go (api_call az client c) (\<lambda>(_, err). onErrorFail err fail)))"

text \<open>A result that \<open>listKeys\<close> can print: all five pointers set.\<close>

definition keys_complete :: "access_keys \<Rightarrow> bool" where
  "keys_complete k \<longleftrightarrow> KeyName k \<noteq> None \<and> PrimaryKey k \<noteq> None \<and> SecondaryKey k \<noteq> None \<and>
     PrimaryConnectionString k \<noteq> None \<and> SecondaryConnectionString k \<noteq> None"

definition the_key_lines :: "access_keys \<Rightarrow> string list" where
  "the_key_lines k = key_lines (the (KeyName k)) (the (PrimaryKey k)) (the (SecondaryKey k))
     (the (PrimaryConnectionString k)) (the (SecondaryConnectionString k))"

section \<open>The calls each step can make\<close>

lemma print_keys_remote [simp]:
  "calls (snd (print_keys k t)) = calls t" "cloud (snd (print_keys k t)) = cloud t"
  unfolding print_keys_def deref_def by (simp_all add: go_simps split: option.splits)

lemma keeps_print_keys [keeps_intros]: "keeps remote (print_keys k)"
  by (simp add: keeps_def)

lemma emits_seq_Nil [emits_intros]: "emits obs (seq_go []) []"
  by (simp add: emits_ret)

lemma emits_seq_Cons [emits_intros]:
  "emits obs m xs \<Longrightarrow> emits obs (seq_go ms) ys \<Longrightarrow> zs = xs @ ys \<Longrightarrow> emits obs (seq_go (m # ms)) zs"
  by (simp add: emits_then)

lemma emits_print_keys [emits_intros]: "emits call_log (print_keys keys) []"
  unfolding print_keys_def by (rule emits_intros | simp)+

lemma emits_main:
  "emits call_log (main az) canonical_calls"
  unfolding main_def createResourceGroup_def createNamespace_def createAuthRule_def listKeys_def
    createQueue_def createTopic_def createSubscription_def deleteResourceGroup_def
  by (rule emits_intros | simp add: canonical_calls_def)+

lemma emits_init: "emits call_log (init az) []"
  by (intro emits_keeps_remote keeps_init)

lemma call_log_start [simp]: "call_log (start e inp c) = []"
  by (simp add: call_log_def start_def)

section \<open>Evaluation of the steps\<close>

lemma after_call_clients [simp]:
  "groupsClient (after_call az msg cl c s) = groupsClient s"
  "namespaceClient (after_call az msg cl c s) = namespaceClient s"
  "queuesClient (after_call az msg cl c s) = queuesClient s"
  "topicsClient (after_call az msg cl c s) = topicsClient s"
  "subClient (after_call az msg cl c s) = subClient s"
  by (simp_all add: after_call_def)

lemma after_call_fields [simp]:
  "stdin (after_call az msg cl c s) = stdin s"
  "env (after_call az msg cl c s) = env s"
  "stdout (after_call az msg cl c s) = stdout s @ [msg]"
  "calls (after_call az msg cl c s) = calls s @ [(cl, c)]"
  by (simp_all add: after_call_def)

lemma checked_step_apply:
  "(\<And>t v. sel (t\<lparr>stdout := v\<rparr>) = sel t) \<Longrightarrow> checked_step az msg sel c fail s =
     (case snd (fst (invoke az (cloud s) (sel s) c)) of
        None \<Rightarrow> (Inr (), after_call az msg (sel s) c s)
      | Some e \<Rightarrow> (Inl (Exit 1), (after_call az msg (sel s) c s)\<lparr>stdout :=
           stdout s @ [msg, fail_msg fail e]\<rparr>))"
  by (simp add: checked_step_def after_call_def go_simps prod.case_eq_if split: option.splits)

lemma listKeys_apply:
  "listKeys az s =
     (let c = canonical_calls ! 3; cl = namespaceClient s in
      case snd (fst (invoke az (cloud s) cl c)) of
        None \<Rightarrow> print_keys (keys_of (fst (fst (invoke az (cloud s) cl c))))
                  (after_call az (progress_lines ! 3) cl c s)
      | Some e \<Rightarrow> (Inl (Exit 1), (after_call az (progress_lines ! 3) cl c s)\<lparr>stdout :=
           stdout s @ [progress_lines ! 3, fail_msg (failure_messages ! 3) e]\<rparr>))"
  by (cases "snd (fst (invoke az (cloud s) (namespaceClient s)
       (NamespacesListKeys resourceGroupName namespaceName authRuleName)))")
     (simp_all add: listKeys_def after_call_def go_simps prod.case_eq_if progress_lines_def Let_def
      failure_messages_def canonical_calls_def)

lemma step_eqs:
  "createResourceGroup az = checked_step az (progress_lines ! 0) groupsClient (canonical_calls ! 0) (failure_messages ! 0)"
  "createNamespace az = checked_step az (progress_lines ! 1) namespaceClient (canonical_calls ! 1) (failure_messages ! 1)"
  "createAuthRule az = checked_step az (progress_lines ! 2) namespaceClient (canonical_calls ! 2) (failure_messages ! 2)"
  "createQueue az = checked_step az (progress_lines ! 4) queuesClient (canonical_calls ! 4) (failure_messages ! 4)"
  "createTopic az = checked_step az (progress_lines ! 5) topicsClient (canonical_calls ! 5) (failure_messages ! 5)"
  "createSubscription az = checked_step az (progress_lines ! 6) subClient (canonical_calls ! 6) (failure_messages ! 6)"
  "deleteResourceGroup az = checked_step az (progress_lines ! 7) groupsClient (canonical_calls ! 7) (failure_messages ! 7)"
  by (simp_all add: checked_step_def progress_lines_def failure_messages_def canonical_calls_def
      createResourceGroup_def createNamespace_def createAuthRule_def createQueue_def createTopic_def
      createSubscription_def deleteResourceGroup_def)

lemma print_keys_complete:
  "KeyName k = Some a \<Longrightarrow> PrimaryKey k = Some b \<Longrightarrow> SecondaryKey k = Some d \<Longrightarrow>
   PrimaryConnectionString k = Some f \<Longrightarrow> SecondaryConnectionString k = Some g \<Longrightarrow>
   print_keys k s = (Inr (), s\<lparr>stdout := stdout s @ key_lines a b d f g\<rparr>)"
  by (simp add: print_keys_def key_lines_def go_simps)

lemma progress_lines_take:
  "take 4 progress_lines = [progress_lines ! 0, progress_lines ! 1, progress_lines ! 2,
     progress_lines ! 3]"
  "drop 4 (take 7 progress_lines) = [progress_lines ! 4, progress_lines ! 5, progress_lines ! 6]"
  by (simp_all add: progress_lines_def)

lemma print_keys_ok:
  "keys_complete k \<Longrightarrow> print_keys k s = (Inr (), s\<lparr>stdout := stdout s @ the_key_lines k\<rparr>)"
  by (auto simp: keys_complete_def the_key_lines_def intro!: print_keys_complete)

text \<open>
  \<open>main\<close> when every call succeeds and \<^verbatim>\<open>ListKeys\<close> answers a complete result:
  it returns, having printed the progress lines, the keys, the prompt and the deletion
  line, made the eight calls through the client variables, and read one line of input.
\<close>

lemma main_success:
  assumes ok: "\<And>c cl x. snd (fst (invoke az c cl x)) = None"
    and keys: "\<And>c cl. fst (fst (invoke az c cl (canonical_calls ! 3))) = ListKeysResponse k"
    and k: "keys_complete k"
  shows "fst (main az s) = Inr () \<and>
    stdout (snd (main az s)) = stdout s @
      [progress_lines ! 0, progress_lines ! 1, progress_lines ! 2, progress_lines ! 3] @
      the_key_lines k @
      [progress_lines ! 4, progress_lines ! 5, progress_lines ! 6, prompt_msg, progress_lines ! 7] \<and>
    calls (snd (main az s)) = calls s @ [(groupsClient s, canonical_calls ! 0),
      (namespaceClient s, canonical_calls ! 1), (namespaceClient s, canonical_calls ! 2),
      (namespaceClient s, canonical_calls ! 3), (queuesClient s, canonical_calls ! 4),
      (topicsClient s, canonical_calls ! 5), (subClient s, canonical_calls ! 6),
      (groupsClient s, canonical_calls ! 7)] \<and>
    stdin (snd (main az s)) = drop 1 (stdin s)"
  using ok keys k
  by (simp add: main_def step_eqs checked_step_apply listKeys_apply print_keys_ok go_simps
     Let_def)

section \<open>Calls answered without error\<close>

text \<open>
  A step that returns has had its call answered without error: \<open>calls_ok\<close> is
  preserved by every statement of \<open>main\<close> on normal return.
\<close>

lemma calls_ok_after_call:
  "calls_ok az c s \<Longrightarrow> snd (fst (invoke az (cloud s) cl x)) = None \<Longrightarrow>
   calls_ok az c (after_call az msg cl x s)"
  by (simp add: after_call_def calls_ok_def replay_snoc replicate_append_same)

lemma calls_ok_print_keys [simp]: "calls_ok az c (snd (print_keys k t)) = calls_ok az c t"
  by (simp add: calls_ok_def)

lemma returns_checked_step:
  "(\<And>t v. sel (t\<lparr>stdout := v\<rparr>) = sel t) \<Longrightarrow>
   returns_with (calls_ok az c) (checked_step az msg sel x fail) (calls_ok az c)"
  by (auto simp: returns_with_def checked_step_apply calls_ok_after_call split: option.splits)

lemma returns_listKeys: "returns_with (calls_ok az c) (listKeys az) (calls_ok az c)"
  by (auto simp: returns_with_def listKeys_apply Let_def calls_ok_after_call split: option.splits)

lemma returns_main: "returns_with (calls_ok az c) (main az) (calls_ok az c)"
  unfolding main_def step_eqs
  by (rule returns_checked_step returns_listKeys returns_seq_Cons returns_seq_Nil
      | rule returns_calls_ok, intro keeps_intros | simp)+

section \<open>A run in which every call succeeds\<close>

text \<open>
  C2. When the four variables are set, the library builds the OAuth configuration and
  the token, every remote call succeeds and \<^verbatim>\<open>ListKeys\<close> answers a result with its
  five fields set, the process exits with status 0 after exactly the eight calls in
  their order, each made through a client of the kind the code uses that carries the
  subscription id and the token, and it prints the seven progress lines, the five key
  lines between the fourth and fifth of them, the prompt and the deletion line.
\<close>

theorem run_success:
  assumes init: "init_inputs_ok az e sub tok"
    and ok: "\<And>c cl x. snd (fst (invoke az c cl x)) = None"
    and keys: "\<And>c cl. fst (fst (invoke az c cl (canonical_calls ! 3))) = ListKeysResponse k"
    and k: "keys_complete k"
  shows "exit_status (fst (run az e inp c)) = 0 \<and>
    call_log (snd (run az e inp c)) = canonical_calls \<and>
    map fst (calls (snd (run az e inp c))) =
      map (\<lambda>kind. (new_client kind sub)\<lparr>client_authorizer := Some tok\<rparr>) call_kinds \<and>
    stdout (snd (run az e inp c)) =
      take 4 progress_lines @ the_key_lines k @ drop 4 (take 7 progress_lines) @
      [prompt_msg, progress_lines ! 7]"
proof -
  let ?s0 = "start e inp c"
  from init have "init az ?s0 = createClients sub (Some tok) ?s0"
    by (intro init_ok) (simp add: start_def)
  then obtain s1 where i: "init az ?s0 = (Inr (), s1)"
    and cl: "groupsClient s1 = (new_client GroupsClient sub)\<lparr>client_authorizer := Some tok\<rparr>"
      "namespaceClient s1 = (new_client NamespacesClient sub)\<lparr>client_authorizer := Some tok\<rparr>"
      "queuesClient s1 = (new_client QueuesClient sub)\<lparr>client_authorizer := Some tok\<rparr>"
      "topicsClient s1 = (new_client TopicsClient sub)\<lparr>client_authorizer := Some tok\<rparr>"
      "subClient s1 = (new_client SubscriptionsClient sub)\<lparr>client_authorizer := Some tok\<rparr>"
    and o: "stdout s1 = []" and c1: "calls s1 = []"
    by (simp add: createClients_apply start_def)
  from main_success [OF ok keys k, of s1] cl o c1 show ?thesis
    by (simp add: run_def go_simps i call_log_def canonical_calls_def call_kinds_def
        progress_lines_take)
qed

theorem run_success_witness:
  "exit_status (fst (run (stub_azure stub_keys) stub_env [''''] ())) = 0 \<and>
   call_log (snd (run (stub_azure stub_keys) stub_env [''''] ())) = canonical_calls \<and>
   stdout (snd (run (stub_azure stub_keys) stub_env [''''] ())) =
     take 4 progress_lines @ the_key_lines stub_keys @ drop 4 (take 7 progress_lines) @
     [prompt_msg, progress_lines ! 7]"
proof -
  let ?tok = "\<lparr>token_oauth = \<lparr>oauth_tenant = ''tenant-01'',
      token_endpoint = ''https://login.microsoftonline.com/tenant-01/oauth2/token''\<rparr>,
    token_client_id = ''client-01'', token_secret = ''secret-01'',
    token_resource = resource_manager_endpoint\<rparr>"
  have h1: "init_inputs_ok (stub_azure stub_keys) stub_env ''sub-0001'' ?tok"
    by (simp add: init_inputs_ok_def stub_azure_def stub_env_def stub_oauth_def stub_token_def)
  have h2: "\<And>c cl x. snd (fst (invoke (stub_azure stub_keys) c cl x)) = None"
    by (simp add: stub_azure_def)
  have h3: "\<And>c cl. fst (fst (invoke (stub_azure stub_keys) c cl (canonical_calls ! 3))) =
      ListKeysResponse stub_keys"
    by (simp add: stub_azure_def stub_response_def canonical_calls_def)
  have h4: "keys_complete stub_keys"
    by (simp add: keys_complete_def stub_keys_def)
  from run_success [OF h1 h2 h3 h4, of "['''']" "()"] show ?thesis by simp
qed

section \<open>A run in which one call fails\<close>

text \<open>
  \<open>main\<close> when the calls before the \<open>k\<close>-th succeed and the \<open>k\<close>-th fails: it
  stops with status 1 right after that call, whose failure message it printed last.
\<close>

lemma canonical_calls_take:
  "take 1 canonical_calls = [canonical_calls ! 0]"
  "take 2 canonical_calls = [canonical_calls ! 0, canonical_calls ! 1]"
  "take 3 canonical_calls = [canonical_calls ! 0, canonical_calls ! 1, canonical_calls ! 2]"
  "take 4 canonical_calls = [canonical_calls ! 0, canonical_calls ! 1, canonical_calls ! 2,
     canonical_calls ! 3]"
  "take 5 canonical_calls = [canonical_calls ! 0, canonical_calls ! 1, canonical_calls ! 2,
     canonical_calls ! 3, canonical_calls ! 4]"
  "take 6 canonical_calls = [canonical_calls ! 0, canonical_calls ! 1, canonical_calls ! 2,
     canonical_calls ! 3, canonical_calls ! 4, canonical_calls ! 5]"
  "take 7 canonical_calls = [canonical_calls ! 0, canonical_calls ! 1, canonical_calls ! 2,
     canonical_calls ! 3, canonical_calls ! 4, canonical_calls ! 5, canonical_calls ! 6]"
  "take 8 canonical_calls = [canonical_calls ! 0, canonical_calls ! 1, canonical_calls ! 2,
     canonical_calls ! 3, canonical_calls ! 4, canonical_calls ! 5, canonical_calls ! 6,
     canonical_calls ! 7]"
  "take (Suc 0) canonical_calls = [canonical_calls ! 0]"
  "take (Suc (Suc 0)) canonical_calls = [canonical_calls ! 0, canonical_calls ! Suc 0]"
  by (simp_all add: canonical_calls_def)

lemma main_failure:
  assumes k: "k < 8"
    and before: "\<And>c cl j. j < k \<Longrightarrow> snd (fst (invoke az c cl (canonical_calls ! j))) = None"
    and fails: "\<And>c cl. snd (fst (invoke az c cl (canonical_calls ! k))) = Some err"
    and keys: "\<And>c cl. 3 < k \<Longrightarrow> fst (fst (invoke az c cl (canonical_calls ! 3))) = ListKeysResponse kk"
    and kk: "keys_complete kk"
  shows "fst (main az s) = Inl (Exit 1) \<and>
    call_log (snd (main az s)) = call_log s @ take (Suc k) canonical_calls \<and>
    last (stdout (snd (main az s))) = fail_msg (failure_messages ! k) err"
proof -
  from k consider "k = 0" | "k = 1" | "k = 2" | "k = 3" | "k = 4" | "k = 5" | "k = 6" | "k = 7"
    by linarith
  then show ?thesis using before fails keys kk
    by cases (simp_all add: main_def step_eqs checked_step_apply listKeys_apply print_keys_ok
      go_simps Let_def call_log_def canonical_calls_take)
qed

text \<open>
  C3. When the start-up succeeds, the calls before the \<open>k\<close>-th of the eight succeed
  (with a complete \<^verbatim>\<open>ListKeys\<close> result if that call is among them) and the
  \<open>k\<close>-th fails with error \<open>err\<close>, the process exits with status 1 right after that
  call: it has made exactly the first \<open>k + 1\<close> calls, none of the later steps runs, and
  the last line it printed is the step's failure message followed by the error.
\<close>

theorem run_stops_at_failure:
  assumes init: "init_inputs_ok az e sub tok"
    and k: "k < 8"
    and before: "\<And>c cl j. j < k \<Longrightarrow> snd (fst (invoke az c cl (canonical_calls ! j))) = None"
    and fails: "\<And>c cl. snd (fst (invoke az c cl (canonical_calls ! k))) = Some err"
    and keys: "\<And>c cl. 3 < k \<Longrightarrow> fst (fst (invoke az c cl (canonical_calls ! 3))) = ListKeysResponse kk"
    and kk: "keys_complete kk"
  shows "exit_status (fst (run az e inp c)) = 1 \<and>
    call_log (snd (run az e inp c)) = take (Suc k) canonical_calls \<and>
    last (stdout (snd (run az e inp c))) = fail_msg (failure_messages ! k) err"
proof -
  from init have "init az (start e inp c) = createClients sub (Some tok) (start e inp c)"
    by (intro init_ok) (simp add: start_def)
  then obtain s1 where i: "init az (start e inp c) = (Inr (), s1)" and c1: "call_log s1 = []"
    by (simp add: createClients_apply start_def call_log_def)
  from main_failure [OF k before fails keys kk, of s1] c1 show ?thesis
    by (simp add: run_def go_simps i)
qed

theorem run_stops_at_failure_witness:
  "exit_status (fst (run (failing_azure (canonical_calls ! 1) ''Conflict'') stub_env [] ())) = 1 \<and>
   call_log (snd (run (failing_azure (canonical_calls ! 1) ''Conflict'') stub_env [] ())) =
     [GroupsCreateOrUpdate resourceGroupName groupParams,
      NamespacesCreateOrUpdate resourceGroupName namespaceName namespaceParams]"
proof -
  let ?az = "failing_azure (canonical_calls ! 1) ''Conflict''"
  let ?tok = "\<lparr>token_oauth = \<lparr>oauth_tenant = ''tenant-01'',
      token_endpoint = ''https://login.microsoftonline.com/tenant-01/oauth2/token''\<rparr>,
    token_client_id = ''client-01'', token_secret = ''secret-01'',
    token_resource = resource_manager_endpoint\<rparr>"
  have h1: "init_inputs_ok ?az stub_env ''sub-0001'' ?tok"
    by (simp add: init_inputs_ok_def failing_azure_def stub_env_def stub_oauth_def stub_token_def)
  have h2: "\<And>c cl j. j < 1 \<Longrightarrow> snd (fst (invoke ?az c cl (canonical_calls ! j))) = None"
    by (simp add: failing_azure_def canonical_calls_def)
  have h3: "\<And>c cl. snd (fst (invoke ?az c cl (canonical_calls ! 1))) = Some ''Conflict''"
    by (simp add: failing_azure_def)
  have h4: "\<And>c cl. 3 < (1::nat) \<Longrightarrow>
      fst (fst (invoke ?az c cl (canonical_calls ! 3))) = ListKeysResponse stub_keys"
    by simp
  have h5: "keys_complete stub_keys"
    by (simp add: keys_complete_def stub_keys_def)
  from run_stops_at_failure [OF h1 _ h2 h3 h4 h5, of "[]" "()"] show ?thesis
    by (simp add: canonical_calls_take canonical_calls_def)
qed

section \<open>Order of the remote calls\<close>

text \<open>The calls of a run: \<open>init\<close> makes none, \<open>main\<close> makes the eight in order.\<close>

lemma run_emits: "emits call_log (then_go (init az) (main az)) canonical_calls"
  using emits_then [OF emits_init emits_main, of "[] @ canonical_calls"] by simp

text \<open>
  C1. Whatever the environment, the input, the library and the cloud answer, the remote
  calls a run of the program makes are a prefix of the eight calls of
  \<open>canonical_calls\<close>, in that order and with those parameters: no step is skipped,
  repeated or reordered, a child resource is never created before its parent, and a
  run stops issuing calls at its first failure.
\<close>

theorem run_call_order: "prefix (call_log (snd (run az e inp c))) canonical_calls"
proof -
  from emits_run [OF run_emits, of "start e inp c"] show ?thesis
    by (simp add: run_def)
qed

end
