(* ===== verification/Outcomes.thy ===== *)
theory Outcomes
  imports Provisioning
begin

text \<open>
  Whole-program properties of \<^verbatim>\<open>src/example.go\<close> that hold whatever the library
  answers: the ways the process can end, its indifference to what is typed at the
  prompt, and the panic on an incomplete \<^verbatim>\<open>ListKeys\<close> result.
\<close>

section \<open>Outcomes of the steps\<close>

lemma print_keys_incomplete:
  "\<not> keys_complete k \<Longrightarrow> fst (print_keys k s) = Inl (Panic nil_deref_msg)"
  unfolding keys_complete_def print_keys_def deref_def
  by (auto simp: go_simps split: option.splits)

lemma halts_in_print_keys [halts_intros]:
  "Panic nil_deref_msg \<in> H \<Longrightarrow> halts_in H (print_keys k)"
  unfolding print_keys_def by (intro halts_intros)

lemma halts_in_main [halts_intros]:
  "Exit 1 \<in> H \<Longrightarrow> Panic nil_deref_msg \<in> H \<Longrightarrow> halts_in H (main az)"
  unfolding main_def createResourceGroup_def createNamespace_def createAuthRule_def listKeys_def
    createQueue_def createTopic_def createSubscription_def deleteResourceGroup_def
  by (intro halts_intros)

lemma blind_print_keys [blind_intros]: "blind eq_but_stdin (print_keys k)"
  unfolding print_keys_def by (intro blind_intros)

lemma blind_main [blind_intros]: "blind eq_but_stdin (main az)"
  unfolding main_def createResourceGroup_def createNamespace_def createAuthRule_def listKeys_def
    createQueue_def createTopic_def createSubscription_def deleteResourceGroup_def
  by (rule blind_scanln_discard | rule blind_intros | simp add: eq_but_stdin_st_iff)+

lemma listKeys_panic:
  assumes lk: "\<And>c cl. fst (invoke az c cl (canonical_calls ! 3)) = (ListKeysResponse k, None)"
    and k: "\<not> keys_complete k"
  shows "listKeys az s = (Inl (Panic nil_deref_msg), snd (print_keys k
    (after_call az (progress_lines ! 3) (namespaceClient s) (canonical_calls ! 3) s)))"
  using listKeys_apply [of az s] lk print_keys_incomplete [OF k]
  by (simp add: Let_def prod_eq_iff)

lemma main_keys_panic:
  assumes before: "\<And>c cl j. j < 3 \<Longrightarrow> snd (fst (invoke az c cl (canonical_calls ! j))) = None"
    and lk: "\<And>c cl. fst (invoke az c cl (canonical_calls ! 3)) = (ListKeysResponse k, None)"
    and k: "\<not> keys_complete k"
  shows "fst (main az s) = Inl (Panic nil_deref_msg) \<and>
    call_log (snd (main az s)) = call_log s @ take 4 canonical_calls"
  using before
  by (simp add: main_def step_eqs checked_step_apply listKeys_panic [OF lk k] go_simps
      call_log_def canonical_calls_take)

section \<open>Whole-run claims\<close>

text \<open>
  C8. When the start-up succeeds, the first three calls succeed and \<^verbatim>\<open>ListKeys\<close>
  succeeds with a result in which one of the five fields is \<^verbatim>\<open>nil\<close>, the process
  does not report a failure and exit with status 1: it panics on the nil dereference and
  exits with status 2, after exactly the first four calls, so that the resource group it
  created is never deleted.
\<close>

theorem run_incomplete_keys_panics:
  assumes init: "init_inputs_ok az e sub tok"
    and before: "\<And>c cl j. j < 3 \<Longrightarrow> snd (fst (invoke az c cl (canonical_calls ! j))) = None"
    and lk: "\<And>c cl. fst (invoke az c cl (canonical_calls ! 3)) = (ListKeysResponse k, None)"
    and k: "\<not> keys_complete k"
  shows "fst (run az e inp c) = Inl (Panic nil_deref_msg) \<and>
    exit_status (fst (run az e inp c)) = 2 \<and>
    call_log (snd (run az e inp c)) = take 4 canonical_calls"
proof -
  from init have "init az (start e inp c) = createClients sub (Some tok) (start e inp c)"
    by (intro init_ok) (simp add: start_def)
  then obtain s1 where i: "init az (start e inp c) = (Inr (), s1)" and c1: "call_log s1 = []"
    by (simp add: createClients_apply start_def call_log_def)
  from main_keys_panic [OF before lk k, of s1] c1 show ?thesis
    by (simp add: run_def go_simps i)
qed

theorem run_incomplete_keys_panics_witness:
  "fst (run (stub_azure (stub_keys\<lparr>PrimaryKey := None\<rparr>)) stub_env [] ()) = Inl (Panic nil_deref_msg) \<and>
   exit_status (fst (run (stub_azure (stub_keys\<lparr>PrimaryKey := None\<rparr>)) stub_env [] ())) = 2 \<and>
   call_log (snd (run (stub_azure (stub_keys\<lparr>PrimaryKey := None\<rparr>)) stub_env [] ())) =
     take 4 canonical_calls"
proof -
  let ?az = "stub_azure (stub_keys\<lparr>PrimaryKey := None\<rparr>)"
  let ?tok = "\<lparr>token_oauth = \<lparr>oauth_tenant = ''tenant-01'',
      token_endpoint = ''https://login.microsoftonline.com/tenant-01/oauth2/token''\<rparr>,
    token_client_id = ''client-01'', token_secret = ''secret-01'',
    token_resource = resource_manager_endpoint\<rparr>"
  have h1: "init_inputs_ok ?az stub_env ''sub-0001'' ?tok"
    by (simp add: init_inputs_ok_def stub_azure_def stub_env_def stub_oauth_def stub_token_def)
  have h2: "\<And>c cl j. j < 3 \<Longrightarrow> snd (fst (invoke ?az c cl (canonical_calls ! j))) = None"
    by (simp add: stub_azure_def)
  have h3: "\<And>c cl. fst (invoke ?az c cl (canonical_calls ! 3)) =
      (ListKeysResponse (stub_keys\<lparr>PrimaryKey := None\<rparr>), None)"
    by (simp add: stub_azure_def stub_response_def canonical_calls_def)
  have h4: "\<not> keys_complete (stub_keys\<lparr>PrimaryKey := None\<rparr>)"
    by (simp add: keys_complete_def)
  from run_incomplete_keys_panics [OF h1 h2 h3 h4, of "[]" "()"] show ?thesis by simp
qed

text \<open>
  C9. What is typed at the prompt, and whether anything is typed at all, changes
  nothing but the unread input: the outcome, the output, the remote calls, the cloud and
  the clients of two runs that differ only in their input are the same. In particular
  the resource group is deleted without any confirmation, also at end of input.
\<close>

theorem run_input_discarded:
  "fst (run az e inp c) = fst (run az e inp' c) \<and>
   (snd (run az e inp c))\<lparr>stdin := []\<rparr> = (snd (run az e inp' c))\<lparr>stdin := []\<rparr>"
proof -
  have "blind eq_but_stdin (then_go (init az) (main az))"
    by (intro blind_then blind_init blind_main)
  from blindD [OF this eq_but_stdin_start] show ?thesis
    by (simp add: run_def eq_but_stdin_def)
qed

text \<open>
  C10. Whatever the environment, the input, the library and the cloud answer, a run
  ends in one of three ways: \<^verbatim>\<open>main\<close> returns (status 0), a helper calls
  \<^verbatim>\<open>os.Exit(1)\<close>, or a \<^verbatim>\<open>nil\<close> pointer is dereferenced (status 2); no other
  status is possible.
\<close>

theorem run_outcomes:
  "fst (run az e inp c) \<in> {Inr (), Inl (Exit 1), Inl (Panic nil_deref_msg)} \<and>
   exit_status (fst (run az e inp c)) \<in> {0, 1, 2}"
proof -
  have h: "halts_in {Exit 1, Panic nil_deref_msg} (then_go (init az) (main az))"
    by (intro halts_in_then halts_in_init halts_in_main) simp_all
  show ?thesis
  proof (cases "fst (run az e inp c)")
    case (Inl x)
    with halts_inD [OF h, of "start e inp c" x] show ?thesis by (auto simp: run_def)
  next
    case (Inr u)
    then show ?thesis by simp
  qed
qed

end
