(* ===== verification/Workflow.thy ===== *)
theory Workflow
  imports Provisioning
begin

text \<open>
  The provisioning workflow as the specification describes it (sections 2 and 4): the
  cloud holds named resources in a hierarchy (resource group, namespace in a group,
  authorization rule, queue and topic in a namespace, subscription in a topic); a
  resource can be created only inside an existing parent, keys can be listed only for an
  existing rule, and deleting a group deletes everything in it. \<open>wf_step\<close> is that
  contract as a step relation on the set of existing resources, \<open>wf_trace\<close> its
  sequences of steps, and \<open>wf_run\<close> an executable checker equal to it. The
  refinement lemmas show that the calls the program makes, read as workflow operations
  by \<open>abs_call\<close>, are always a trace of the contract from an empty cloud, and
  that a run that returns normally made all eight calls, each answered without error,
  leaving under the contract none of the resources it created.
\<close>

section \<open>Resources and operations\<close>

datatype resource =
    RGroup string
  | RNamespace string string
  | RRule string string string
  | RQueue string string string
  | RTopic string string string
  | RSub string string string string

fun parent :: "resource \<Rightarrow> resource option" where
  "parent (RGroup g) = None"
| "parent (RNamespace g n) = Some (RGroup g)"
| "parent (RRule g n r) = Some (RNamespace g n)"
| "parent (RQueue g n q) = Some (RNamespace g n)"
| "parent (RTopic g n t) = Some (RNamespace g n)"
| "parent (RSub g n t s) = Some (RTopic g n t)"

fun group_of :: "resource \<Rightarrow> string" where
  "group_of (RGroup g) = g"
| "group_of (RNamespace g n) = g"
| "group_of (RRule g n r) = g"
| "group_of (RQueue g n q) = g"
| "group_of (RTopic g n t) = g"
| "group_of (RSub g n t s) = g"

datatype wf_op = ACreate resource | AListKeys string string string | ADeleteGroup string

text \<open>The workflow operation of each management call, with the names it carries.\<close>

fun abs_call :: "call \<Rightarrow> wf_op" where
  "abs_call (GroupsCreateOrUpdate g p) = ACreate (RGroup g)"
| "abs_call (GroupsDelete g) = ADeleteGroup g"
| "abs_call (NamespacesCreateOrUpdate g n p) = ACreate (RNamespace g n)"
| "abs_call (NamespacesCreateOrUpdateAuthorizationRule g n r p) = ACreate (RRule g n r)"
| "abs_call (NamespacesListKeys g n r) = AListKeys g n r"
| "abs_call (QueuesCreateOrUpdate g n q p) = ACreate (RQueue g n q)"
| "abs_call (TopicsCreateOrUpdate g n t p) = ACreate (RTopic g n t)"
| "abs_call (SubscriptionsCreateOrUpdate g n t s p) = ACreate (RSub g n t s)"

definition parent_exists :: "resource set \<Rightarrow> resource \<Rightarrow> bool" where
  "parent_exists S r \<longleftrightarrow> (case parent r of None \<Rightarrow> True | Some p \<Rightarrow> p \<in> S)"

inductive wf_step :: "resource set \<Rightarrow> wf_op \<Rightarrow> resource set \<Rightarrow> bool" where
  create: "parent_exists S r \<Longrightarrow> wf_step S (ACreate r) (insert r S)"
| list_keys: "RRule g n a \<in> S \<Longrightarrow> wf_step S (AListKeys g n a) S"
| delete_group: "RGroup g \<in> S \<Longrightarrow> wf_step S (ADeleteGroup g) {r \<in> S. group_of r \<noteq> g}"

inductive wf_trace :: "resource set \<Rightarrow> wf_op list \<Rightarrow> resource set \<Rightarrow> bool" where
  Nil: "wf_trace S [] S"
| Cons: "wf_step S a T \<Longrightarrow> wf_trace T as U \<Longrightarrow> wf_trace S (a # as) U"

text \<open>The contract as a function: the next set of resources, or \<open>None\<close> if refused.\<close>

fun wf_exec :: "resource set \<Rightarrow> wf_op \<Rightarrow> resource set option" where
  "wf_exec S (ACreate r) = (if parent_exists S r then Some (insert r S) else None)"
| "wf_exec S (AListKeys g n a) = (if RRule g n a \<in> S then Some S else None)"
| "wf_exec S (ADeleteGroup g) = (if RGroup g \<in> S then Some {r \<in> S. group_of r \<noteq> g} else None)"

fun wf_run :: "resource set \<Rightarrow> wf_op list \<Rightarrow> resource set option" where
  "wf_run S [] = Some S"
| "wf_run S (a # as) = (case wf_exec S a of None \<Rightarrow> None | Some T \<Rightarrow> wf_run T as)"

text \<open>Every existing resource has its parent: the invariant of the contract.\<close>

definition closed :: "resource set \<Rightarrow> bool" where
  "closed S \<longleftrightarrow> (\<forall>r \<in> S. parent_exists S r)"

inductive_cases wf_stepE [elim!]:
  "wf_step S (ACreate r) T" "wf_step S (AListKeys g n a) T" "wf_step S (ADeleteGroup g) T"

inductive_cases wf_trace_NilE [elim!]: "wf_trace S [] T"
inductive_cases wf_trace_ConsE [elim!]: "wf_trace S (a # as) U"

section \<open>The checker decides the contract\<close>

lemma wf_exec_iff: "wf_exec S a = Some T \<longleftrightarrow> wf_step S a T"
  by (cases a) (auto intro: wf_step.intros)

lemma wf_run_iff: "wf_run S as = Some U \<longleftrightarrow> wf_trace S as U"
proof (induction as arbitrary: S)
  case Nil
  show ?case by (auto intro: wf_trace.Nil)
next
  case (Cons a as)
  show ?case
    by (auto simp: Cons.IH wf_exec_iff [symmetric] intro: wf_trace.Cons split: option.splits)
qed

lemma wf_trace_append:
  "wf_trace S (xs @ ys) U \<longleftrightarrow> (\<exists>T. wf_trace S xs T \<and> wf_trace T ys U)"
  by (induction xs arbitrary: S) (auto intro: wf_trace.intros, meson wf_trace.Cons)

section \<open>The invariant\<close>

lemma parent_group: "parent r = Some p \<Longrightarrow> group_of p = group_of r"
  by (cases r) auto

lemma wf_step_closed: "wf_step S a T \<Longrightarrow> closed S \<Longrightarrow> closed T"
  by (induction rule: wf_step.induct)
     (auto simp: closed_def parent_exists_def parent_group split: option.splits)

lemma wf_trace_closed: "wf_trace S as T \<Longrightarrow> closed S \<Longrightarrow> closed T"
  by (induction rule: wf_trace.induct) (auto dest: wf_step_closed)

lemma closed_empty [simp]: "closed {}"
  by (simp add: closed_def)

section \<open>Refinement: the program's calls follow the contract\<close>

lemma canonical_workflow: "wf_run {} (map abs_call canonical_calls) = Some {}"
  by (simp add: canonical_calls_def names_defs parent_exists_def) auto

lemma canonical_prefix_trace:
  assumes "prefix xs canonical_calls"
  shows "\<exists>S. wf_trace {} (map abs_call xs) S"
proof -
  from assms obtain ys where "canonical_calls = xs @ ys" by (auto simp: prefix_def)
  with canonical_workflow have "wf_trace {} (map abs_call xs @ map abs_call ys) {}"
    by (simp add: wf_run_iff flip: map_append)
  then show ?thesis by (auto simp: wf_trace_append)
qed

lemma canonical_calls_length: "length canonical_calls = 8"
  by (simp add: canonical_calls_def)

lemma run_calls:
  "prefix (call_log (snd (run az e inp c))) canonical_calls \<and>
   (isl (fst (run az e inp c)) \<or> call_log (snd (run az e inp c)) = canonical_calls)"
  using emits_run [OF run_emits, of "start e inp c"] by (simp add: run_def)

lemma stub_run_returns: "fst (run (stub_azure stub_keys) stub_env inp ()) = Inr ()"
proof -
  let ?az = "stub_azure stub_keys"
  let ?tok = "\<lparr>token_oauth = \<lparr>oauth_tenant = ''tenant-01'',
      token_endpoint = ''https://login.microsoftonline.com/tenant-01/oauth2/token''\<rparr>,
    token_client_id = ''client-01'', token_secret = ''secret-01'',
    token_resource = resource_manager_endpoint\<rparr>"
  have "init_inputs_ok ?az (env (start stub_env inp ())) ''sub-0001'' ?tok"
    by (simp add: init_inputs_ok_def stub_azure_def stub_env_def stub_oauth_def stub_token_def
        start_def)
  from init_ok [OF this] obtain s1 where i: "init ?az (start stub_env inp ()) = (Inr (), s1)"
    by (simp add: createClients_apply)
  have ok: "\<And>c cl x. snd (fst (invoke ?az c cl x)) = None"
    by (simp add: stub_azure_def)
  have keys: "\<And>c cl. fst (fst (invoke ?az c cl (canonical_calls ! 3))) = ListKeysResponse stub_keys"
    by (simp add: stub_azure_def stub_response_def canonical_calls_def)
  have "keys_complete stub_keys"
    by (simp add: keys_complete_def stub_keys_def)
  from main_success [OF ok keys this, of s1] i show ?thesis
    by (simp add: run_def go_simps)
qed

text \<open>
  C11. Refinement of the workflow contract: whatever the environment, the input, the
  library and the cloud answer, the remote calls of a run, read as workflow operations,
  are a trace of the contract from an empty cloud, and the resources they leave form a
  hierarchy in which every resource has its parent. Every call names the resources that
  the calls before it created: the namespace is created in the group, the rule, queue
  and topic in the namespace, the subscription in the topic, and keys are listed for the
  rule that was created.
\<close>

theorem run_refines_workflow:
  "\<exists>S. wf_trace {} (map abs_call (call_log (snd (run az e inp c)))) S \<and> closed S"
proof -
  from run_calls [of az e inp c] have "prefix (call_log (snd (run az e inp c))) canonical_calls" by blast
  from canonical_prefix_trace [OF this] obtain S
    where t: "wf_trace {} (map abs_call (call_log (snd (run az e inp c)))) S" by blast
  with wf_trace_closed [OF t] show ?thesis by auto
qed

theorem run_refines_workflow_witness:
  "\<exists>S. wf_trace {} (map abs_call (call_log (snd (run (stub_azure stub_keys) stub_env [] ())))) S
     \<and> closed S"
  using run_refines_workflow [of "stub_azure stub_keys" stub_env "[]" "()"] by simp

lemma run_calls_ok: "fst (run az e inp c) = Inr () \<Longrightarrow> calls_ok az c (snd (run az e inp c))"
proof -
  have "returns_with (calls_ok az c) (then_go (init az) (main az)) (calls_ok az c)"
    by (rule returns_then [OF returns_calls_ok [OF keeps_init] returns_main])
  moreover have "calls_ok az c (start e inp c)"
    by (simp add: calls_ok_def start_def)
  ultimately show "fst (run az e inp c) = Inr () \<Longrightarrow> calls_ok az c (snd (run az e inp c))"
    unfolding run_def by (rule returns_withD)
qed

text \<open>
  C12. A run that returns normally (status 0) has made the complete workflow: its log is
  the eight calls in order, and replaying them against the library from the initial
  cloud shows that each of the eight was answered without error and that the final cloud
  is the one they produced. By the contract, the cloud is left without any of the
  resources the run created: the deletion of the group removed the namespace, rule,
  queue, topic and subscription with it.
\<close>

theorem run_returns_cleans_up:
  assumes ret: "fst (run az e inp c) = Inr ()"
  shows "call_log (snd (run az e inp c)) = canonical_calls \<and>
    replay az c (calls (snd (run az e inp c))) = (cloud (snd (run az e inp c)), replicate 8 None) \<and>
    wf_trace {} (map abs_call (call_log (snd (run az e inp c)))) {}"
proof -
  from run_calls [of az e inp c] ret have log: "call_log (snd (run az e inp c)) = canonical_calls"
    by auto
  then have "length (calls (snd (run az e inp c))) = 8"
    by (metis call_log_def length_map canonical_calls_length)
  with run_calls_ok [OF ret] have "replay az c (calls (snd (run az e inp c))) =
      (cloud (snd (run az e inp c)), replicate 8 None)"
    by (simp add: calls_ok_def)
  with log canonical_workflow show ?thesis by (simp add: wf_run_iff)
qed

theorem run_returns_cleans_up_witness:
  "fst (run (stub_azure stub_keys) stub_env [] ()) = Inr () \<and>
   call_log (snd (run (stub_azure stub_keys) stub_env [] ())) = canonical_calls \<and>
   replay (stub_azure stub_keys) () (calls (snd (run (stub_azure stub_keys) stub_env [] ()))) =
     (cloud (snd (run (stub_azure stub_keys) stub_env [] ())), replicate 8 None) \<and>
   wf_trace {} (map abs_call (call_log (snd (run (stub_azure stub_keys) stub_env [] ())))) {}"
  using run_returns_cleans_up [OF stub_run_returns [of "[]"]] stub_run_returns [of "[]"] by blast

end
