(* ===== verification/Redesign.thy ===== *)
theory Redesign
  imports Provisioning
begin

text \<open>
  The redesign the specification asks for (section 9): the five clients become one
  immutable context \<open>ctx\<close>, built once by the start-up and passed to each step, and
  each step returns a result, \<open>Inl\<close> the failure line or \<open>Inr ()\<close>, instead of
  calling \<^verbatim>\<open>os.Exit\<close>; the top level runs the steps in order, stops at the first
  failure and reports it uniformly (\<open>report\<close>). The equivalence theorem shows the
  redesign keeps the user-visible behaviour of the program: the same outcome, output,
  remote calls, cloud and input for every library and cloud behaviour.
\<close>

section \<open>The redesigned program\<close>

record ctx =
  ctx_groups :: client
  ctx_namespaces :: client
  ctx_queues :: client
  ctx_topics :: client
  ctx_subs :: client

definition new_ctx :: "string \<Rightarrow> sp_token option \<Rightarrow> ctx" where
  "new_ctx subID token = \<lparr>
     ctx_groups = (new_client GroupsClient subID)\<lparr>client_authorizer := token\<rparr>,
     ctx_namespaces = (new_client NamespacesClient subID)\<lparr>client_authorizer := token\<rparr>,
     ctx_queues = (new_client QueuesClient subID)\<lparr>client_authorizer := token\<rparr>,
     ctx_topics = (new_client TopicsClient subID)\<lparr>client_authorizer := token\<rparr>,
     ctx_subs = (new_client SubscriptionsClient subID)\<lparr>client_authorizer := token\<rparr>\<rparr>"

text \<open>The context the package variables of the original program hold.\<close>

definition ctx_of :: "('c, 'x) st_scheme \<Rightarrow> ctx" where
  "ctx_of s = \<lparr>ctx_groups = groupsClient s, ctx_namespaces = namespaceClient s,
     ctx_queues = queuesClient s, ctx_topics = topicsClient s, ctx_subs = subClient s\<rparr>"

definition install :: "ctx \<Rightarrow> (('c, 'x) st_scheme, unit) go" where
  "install k = (\<lambda>s. (Inr (), s\<lparr>groupsClient := ctx_groups k, namespaceClient := ctx_namespaces k,
     queuesClient := ctx_queues k, topicsClient := ctx_topics k, subClient := ctx_subs k\<rparr>))"

definition fail_result :: "string option \<Rightarrow> string \<Rightarrow> string + unit" where
  "fail_result err message = (case err of None \<Rightarrow> Inr () | Some e \<Rightarrow> Inl (fail_msg message e))"

definition rstep :: "'c azure \<Rightarrow> string \<Rightarrow> (ctx \<Rightarrow> client) \<Rightarrow> call \<Rightarrow> string \<Rightarrow> ctx \<Rightarrow>
    (('c, 'x) st_scheme, string + unit) go" where
  "rstep az msg sel c fail k =
     then_go (printf msg) (bind_go (api_call az (sel k) c) (\<lambda>(_, err). ret (fail_result err fail)))"

definition rlistKeys :: "'c azure \<Rightarrow> ctx \<Rightarrow> (('c, 'x) st_scheme, string + unit) go" where
  "rlistKeys az k =
     then_go (printf (progress_lines ! 3))
     (bind_go (api_call az (ctx_namespaces k) (canonical_calls ! 3)) (\<lambda>(keys, err).
       case fail_result err (failure_messages ! 3) of
         Inl m \<Rightarrow> ret (Inl m)
       | Inr u \<Rightarrow> then_go (print_keys (keys_of keys)) (ret (Inr ()))))"

definition rsteps :: "'c azure \<Rightarrow> (ctx \<Rightarrow> (('c, 'x) st_scheme, string + unit) go) list" where
  "rsteps az = [
     rstep az (progress_lines ! 0) ctx_groups (canonical_calls ! 0) (failure_messages ! 0),
     rstep az (progress_lines ! 1) ctx_namespaces (canonical_calls ! 1) (failure_messages ! 1),
     rstep az (progress_lines ! 2) ctx_namespaces (canonical_calls ! 2) (failure_messages ! 2),
     rlistKeys az,
     rstep az (progress_lines ! 4) ctx_queues (canonical_calls ! 4) (failure_messages ! 4),
     rstep az (progress_lines ! 5) ctx_topics (canonical_calls ! 5) (failure_messages ! 5),
     rstep az (progress_lines ! 6) ctx_subs (canonical_calls ! 6) (failure_messages ! 6),
     (\<lambda>k. then_go (printf prompt_msg) (ret (Inr ()))),
     (\<lambda>k. bind_go scanln (\<lambda>input. ret (Inr ()))),
     rstep az (progress_lines ! 7) ctx_groups (canonical_calls ! 7) (failure_messages ! 7)]"

text \<open>The top-level sequence: each step runs only if the ones before succeeded.\<close>

fun seq_r :: "('k \<Rightarrow> ('s, string + unit) go) list \<Rightarrow> 'k \<Rightarrow> ('s, string + unit) go" where
  "seq_r [] k = ret (Inr ())"
| "seq_r (m # ms) k = bind_go (m k) (\<lambda>r. case r of Inl e \<Rightarrow> ret (Inl e) | Inr u \<Rightarrow> seq_r ms k)"

definition report :: "(('c, 'x) world_scheme, string + unit) go \<Rightarrow> (('c, 'x) world_scheme, unit) go" where
  "report m = bind_go m (\<lambda>r. case r of Inl e \<Rightarrow> then_go (printf e) (os_exit 1) | Inr u \<Rightarrow> ret ())"

definition main_r :: "'c azure \<Rightarrow> ctx \<Rightarrow> (('c, 'x) st_scheme, unit) go" where
  "main_r az k = report (seq_r (rsteps az) k)"

text \<open>The start-up of the original, returning the context instead of storing clients.\<close>

definition init_r :: "'c azure \<Rightarrow> (('c, 'x) st_scheme, ctx) go" where
  "init_r az =
     bind_go (getEnvVarOrExit ''AZURE_SUBSCRIPTION_ID'') (\<lambda>subscriptionID.
     bind_go (getEnvVarOrExit ''AZURE_TENANT_ID'') (\<lambda>tenantID.
     (case oauth_config_for_tenant az tenantID of (oauthConfig, err) \<Rightarrow>
     then_go (onErrorFail err ''OAuthConfigForTenant failed'')
     (bind_go (getEnvVarOrExit ''AZURE_CLIENT_ID'') (\<lambda>clientID.
      bind_go (getEnvVarOrExit ''AZURE_CLIENT_SECRET'') (\<lambda>clientSecret.
      bind_go (deref oauthConfig) (\<lambda>cfg.
      (case new_sp_token az cfg clientID clientSecret resource_manager_endpoint of
         (spToken, err) \<Rightarrow>
      then_go (onErrorFail err ''NewServicePrincipalToken failed'')
        (ret (new_ctx subscriptionID spToken))))))))))"

definition run_r :: "'c azure \<Rightarrow> (string \<rightharpoonup> string) \<Rightarrow> string list \<Rightarrow> 'c \<Rightarrow> (halt + unit) \<times> 'c st" where
  "run_r az e inp c = bind_go (init_r az) (main_r az) (start e inp c)"

section \<open>The top level distributes over the steps\<close>

lemma report_seq_r_Cons: "report (seq_r (m # ms) k) = then_go (report (m k)) (report (seq_r ms k))"
  by (rule ext) (simp add: report_def go_simps split: prod.splits sum.splits)

lemma report_seq_r: "report (seq_r ms k) = seq_go (map (\<lambda>m. report (m k)) ms)"
proof (induction ms)
  case Nil
  show ?case by (simp add: report_def)
next
  case (Cons m ms)
  show ?case by (simp only: report_seq_r_Cons Cons.IH list.map seq_go.simps)
qed

section \<open>Each step agrees with its original\<close>

lemma ctx_of_stdout [simp]: "ctx_of (s\<lparr>stdout := v\<rparr>) = ctx_of s"
  by (simp add: ctx_of_def)

lemma ctx_of_after_call [simp]: "ctx_of (after_call az msg cl c s) = ctx_of s"
  by (simp add: ctx_of_def)

lemma ctx_of_print_keys [simp]: "ctx_of (snd (print_keys kk s)) = ctx_of s"
  unfolding print_keys_def deref_def by (simp add: go_simps ctx_of_def split: option.splits)

lemma report_rstep:
  assumes "\<And>t v. sel' (t\<lparr>stdout := v\<rparr>) = sel' t" and "sel k = sel' s"
  shows "report (rstep az msg sel c fail k) s = checked_step az msg sel' c fail s"
  using assms
  by (simp add: checked_step_apply report_def rstep_def fail_result_def go_simps after_call_def
      prod.case_eq_if split: option.splits)

text \<open>
  The agreement of two statements on the states whose package variables hold the
  context \<open>k\<close>, and the preservation of those states by the original statement.
\<close>

lemma agree_rstep:
  fixes sel' :: "('c, 'x) st_scheme \<Rightarrow> client" and az :: "'c azure"
  assumes upd: "\<And>t v. sel' (t\<lparr>stdout := v\<rparr>) = sel' t" and sel: "\<And>t. sel (ctx_of t) = sel' t"
  shows "\<forall>t. ctx_of t = k \<longrightarrow> checked_step az msg sel' c fail t = report (rstep az msg sel c fail k) t \<and>
     ctx_of (snd (checked_step az msg sel' c fail t)) = k"
proof (intro allI impI)
  fix t :: "('c, 'x) st_scheme"
  assume t: "ctx_of t = k"
  with sel have "sel k = sel' t" by auto
  with report_rstep [OF upd] t
  show "checked_step az msg sel' c fail t = report (rstep az msg sel c fail k) t \<and>
     ctx_of (snd (checked_step az msg sel' c fail t)) = k"
    by (simp add: checked_step_apply [OF upd] split: option.splits)
qed

lemma report_bind: "report (bind_go m f) = bind_go m (\<lambda>x. report (f x))"
  by (simp add: report_def bind_go_assoc)

lemma report_then: "report (then_go m n) = then_go m (report n)"
  by (simp add: then_go_def report_bind)

lemma report_ret_Inl: "report (ret (Inl l)) = then_go (printf l) (os_exit 1)"
  by (simp add: report_def)

lemma then_go_ret_unit: "then_go m (ret ()) = m"
  by (rule ext) (simp add: go_simps split: prod.splits sum.splits)

lemma report_ret_Inr: "report (ret (Inr u)) = ret ()"
  by (simp add: report_def)

lemma report_then_ret: "report (then_go m (ret (Inr ()))) = m"
  by (simp only: report_then report_ret_Inr then_go_ret_unit)

lemma onErrorFail_then:
  "then_go (onErrorFail err message) p =
     (case fail_result err message of Inl l \<Rightarrow> then_go (printf l) (os_exit 1) | Inr u \<Rightarrow> p)"
  by (cases err) (simp_all add: onErrorFail_def fail_result_def then_go_def bind_go_assoc os_exit_def)

lemma report_rlistKeys:
  "report (rlistKeys az k) =
     then_go (printf (progress_lines ! 3))
     (bind_go (api_call az (ctx_namespaces k) (canonical_calls ! 3)) (\<lambda>(keys, err).
       then_go (onErrorFail err (failure_messages ! 3)) (print_keys (keys_of keys))))"
  unfolding rlistKeys_def report_then report_bind onErrorFail_then
  by (simp only: prod.case_distrib [of report] sum.case_distrib [of report] report_ret_Inl
      report_then_ret)

lemma ctx_of_listKeys [simp]: "ctx_of (snd (listKeys az t)) = ctx_of t"
  by (simp add: listKeys_apply Let_def split: option.splits)

lemma agree_listKeys:
  fixes az :: "'c azure"
  shows "\<forall>t :: ('c, 'x) st_scheme. ctx_of t = k \<longrightarrow>
    listKeys az t = report (rlistKeys az k) t \<and> ctx_of (snd (listKeys az t)) = k"
proof (intro allI impI)
  fix t :: "('c, 'x) st_scheme"
  assume t: "ctx_of t = k"
  then have n: "ctx_namespaces k = namespaceClient t" by (auto simp: ctx_of_def)
  have "listKeys az t = report (rlistKeys az k) t"
    using n
    by (simp add: report_rlistKeys listKeys_def progress_lines_def failure_messages_def
        canonical_calls_def then_go_apply printf_apply get_var_apply bind_go_apply)
  moreover from t have "ctx_of (snd (listKeys az t)) = k" by simp
  ultimately show "listKeys az t = report (rlistKeys az k) t \<and> ctx_of (snd (listKeys az t)) = k"
    by blast
qed

lemma ctx_of_stdin [simp]: "ctx_of (s\<lparr>stdin := v\<rparr>) = ctx_of s"
  by (simp add: ctx_of_def)

lemma ctx_of_sel [simp]:
  "ctx_groups (ctx_of s) = groupsClient s" "ctx_namespaces (ctx_of s) = namespaceClient s"
  "ctx_queues (ctx_of s) = queuesClient s" "ctx_topics (ctx_of s) = topicsClient s"
  "ctx_subs (ctx_of s) = subClient s"
  by (simp_all add: ctx_of_def)

lemma agree_prompt:
  "\<forall>t. ctx_of t = k \<longrightarrow> printf prompt_msg t = report (then_go (printf prompt_msg) (ret (Inr ()))) t \<and>
     ctx_of (snd (printf prompt_msg t)) = k"
  by (simp add: report_then_ret printf_apply)

lemma agree_scan:
  "\<forall>t. ctx_of t = k \<longrightarrow> bind_go scanln (\<lambda>input. ret ()) t = report (bind_go scanln (\<lambda>input. ret (Inr ()))) t \<and>
     ctx_of (snd (bind_go scanln (\<lambda>input. ret ()) t)) = k"
  by (simp add: report_bind report_ret_Inr go_simps)

section \<open>Equivalence\<close>

lemma main_equiv: "main az s = main_r az (ctx_of s) s"
proof -
  have "list_all2 (\<lambda>m n. \<forall>t. ctx_of t = ctx_of s \<longrightarrow> m t = n t \<and> ctx_of (snd (m t)) = ctx_of s)
    [createResourceGroup az, createNamespace az, createAuthRule az, listKeys az, createQueue az,
     createTopic az, createSubscription az, printf prompt_msg, bind_go scanln (\<lambda>input. ret ()),
     deleteResourceGroup az]
    (map (\<lambda>m. report (m (ctx_of s))) (rsteps az))"
    unfolding step_eqs rsteps_def list.map
    by (intro list.rel_intros agree_rstep agree_listKeys agree_prompt agree_scan) simp_all
  from seq_go_agree [OF this, of s] show ?thesis
    by (simp add: main_def main_r_def report_seq_r)
qed

lemma install_new_ctx: "install (new_ctx sub tok) = createClients sub tok"
  by (simp add: install_def new_ctx_def createClients_def)

lemma init_split: "init az = bind_go (init_r az) install"
  by (simp add: init_def init_r_def bind_go_assoc then_go_def install_new_ctx
      prod.case_distrib [of "\<lambda>m. bind_go m install"])

lemma install_apply:
  "fst (install k s) = Inr ()" "ctx_of (snd (install k s)) = k" "same_world s (snd (install k s))"
  by (simp_all add: install_def ctx_of_def same_world_def)

lemma blind_main_r: "blind same_world (main_r az k)"
  unfolding main_r_def report_seq_r
  unfolding rsteps_def list.map report_def rstep_def rlistKeys_def print_keys_def
  by (intro blind_intros)

text \<open>
  C13. The redesign of the specification's section 9 preserves the user-visible
  behaviour: for every environment, input, library and cloud, the redesigned program
  ends with the same outcome (the same exit status) as the original, and with the same
  environment, the same unread input, the same output, the same remote calls with the
  same clients, and the same cloud.
\<close>

theorem redesign_equivalent:
  "fst (run_r az e inp c) = fst (run az e inp c) \<and>
   same_world (snd (run_r az e inp c)) (snd (run az e inp c))"
proof -
  obtain r s1 where i: "init_r az (start e inp c) = (r, s1)" by fastforce
  show ?thesis
  proof (cases r)
    case (Inl h)
    with i show ?thesis by (simp add: run_r_def run_def init_split go_simps)
  next
    case (Inr k)
    obtain s2 where s2: "install k s1 = (Inr (), s2)"
      using install_apply(1) [where k = k and s = s1] by (cases "install k s1") auto
    from install_apply(2,3) [where k = k and s = s1] s2 have k: "ctx_of s2 = k" and w: "same_world s1 s2" by simp_all
    have "run az e inp c = main_r az k s2"
      using i Inr s2 main_equiv [of az s2] k by (simp add: run_def init_split go_simps)
    moreover have "run_r az e inp c = main_r az k s1"
      using i Inr by (simp add: run_r_def go_simps)
    ultimately show ?thesis using blindD [OF blind_main_r w] by simp
  qed
qed

end
