(* ===== verification/Spec2Isabelle.thy ===== *)
theory Spec2Isabelle
  imports Outcomes Workflow Redesign
begin

text \<open>
  \<^bold>\<open>Verification of the Azure Service Bus management sample.\<close>
  The repository's program is one Go file, \<^verbatim>\<open>src/example.go\<close>. Its package
  \<^verbatim>\<open>init\<close> reads four environment variables, obtains a service-principal token
  and builds five management clients; \<^verbatim>\<open>main\<close> then creates a resource group, a
  Service Bus namespace, an authorization rule (printing its keys), a queue, a topic and
  a subscription, prompts on the terminal, reads one line and deletes the group. Every
  failure goes through \<^verbatim>\<open>getEnvVarOrExit\<close> or \<^verbatim>\<open>onErrorFail\<close>, which print a
  line and call \<^verbatim>\<open>os.Exit(1)\<close>.

  \<^bold>\<open>Model.\<close> A shallow embedding. A Go function is a state transformer in the
  exception-state monad \<open>('s, 'a) go\<close> of \<open>Prelude\<close>: it returns a value or stops
  the process with \<open>Exit n\<close> (\<^verbatim>\<open>os.Exit\<close>) or \<open>Panic m\<close> (a run-time panic,
  exit status 2). The state is the record \<open>'c st\<close> (\<open>Config\<close>): the process world
  of \<open>GoRuntime\<close> (environment, unread input lines, output chunks, the log of remote
  calls with the client that made each, and the cloud of type \<open>'c\<close>) extended with the
  five package variables \<^verbatim>\<open>groupsClient\<close> ... \<^verbatim>\<open>subClient\<close> (lines 22--27).
  The Azure SDK and \<^verbatim>\<open>go-autorest\<close> are not in the repository; their behaviour is
  the parameter \<open>az :: 'c azure\<close> (\<open>AzureSDK\<close>): the two authentication functions
  and \<open>invoke\<close>, which answers a call on the current cloud with a result, an error and
  a new cloud. So every theorem holds for every library and cloud behaviour unless its
  hypotheses restrict them. \<open>Stubs\<close> holds concrete libraries (all calls succeed, one
  call fails, authentication fails) used as the inputs of the witnesses.

  \<^bold>\<open>Correspondence.\<close>
  \<^item> \<open>Config\<close>: \<open>st\<close>, \<open>start\<close> (a fresh process), the name constants
    (lines 29--35), \<open>getEnvVarOrExit\<close> (173--182) and \<open>onErrorFail\<close> (184--190).
  \<^item> \<open>Startup\<close>: \<open>init\<close> (38--51), statement by statement in the code's order,
    and \<open>createClients\<close> (156--171).
  \<^item> \<open>Provisioning\<close>: the request parameters and the eight step functions
    \<open>createResourceGroup\<close> ... \<open>deleteResourceGroup\<close> (69--154), \<open>print_keys\<close>
    for the five dereferencing \<^verbatim>\<open>Printf\<close> calls of \<^verbatim>\<open>listKeys\<close>, \<open>main\<close>
    (53--67) and \<open>run\<close>, which is \<open>init\<close> then \<open>main\<close> from \<open>start\<close>.
  \<^item> \<open>Outcomes\<close>: properties of the whole run that need no hypothesis on the library.
  \<^item> \<open>Workflow\<close>: the resource-hierarchy contract of the management API described by
    the specification (create inside an existing parent, delete a group with all it
    contains) as an inductive step relation \<open>wf_step\<close> with traces \<open>wf_trace\<close>
    and an executable checker \<open>wf_run\<close>, proved equal to it.
  \<^item> \<open>Redesign\<close>: the redesign the specification's design notes ask for (section 9):
    the clients in one immutable context \<open>ctx\<close> passed to each step, steps that
    return their failure (\<open>rstep\<close>, \<open>rlistKeys\<close>) and a top level that stops at
    the first one and reports it (\<open>seq_r\<close>, \<open>report\<close>, \<open>main_r\<close>,
    \<open>run_r\<close>).

  \<^bold>\<open>Rule families.\<close> \<open>Prelude\<close> defines five properties of statements, each with
  introduction rules along the monad's combinators so that a property of a whole
  function follows from its primitives: \<open>keeps\<close> (a frame condition), \<open>emits\<close>
  (the exact sequence of logged remote calls, a prefix of it when the function stops),
  \<open>halts_in\<close> (the only ways it can stop) and \<open>blind\<close> (its result and effect do
  not depend on a part of the state); and \<open>returns_with P m Q\<close>, a partial-correctness
  triple on normal return. \<open>GoRuntime\<close> adds \<open>replay\<close>, which replays a log of
  calls against the library from a cloud state and gives the error each call was
  answered with; \<open>calls_ok\<close> says every call so far was answered without error. The
  evaluation rules \<open>go_simps\<close> and the step
  shape \<open>checked_step\<close> compute concrete runs.

  \<^bold>\<open>Theorems.\<close> C1 (\<open>run_call_order\<close>): every run's calls are a prefix of
  the eight canonical calls. C2 (\<open>run_success\<close>): the complete run, its output and
  clients. C3 (\<open>run_stops_at_failure\<close>): the first failing call ends the run with
  status 1 and no later call. C4--C7 (\<open>Startup\<close>): each branch of \<open>init\<close>: a
  missing variable, a failing OAuth configuration, a failing token, and the clients it
  builds. C8 (\<open>run_incomplete_keys_panics\<close>): a \<^verbatim>\<open>nil\<close> key field makes the
  process panic with status 2. C9 (\<open>run_input_discarded\<close>): the input line changes
  nothing. C10 (\<open>run_outcomes\<close>): statuses 0, 1 and 2 are the only ones. C11
  (\<open>run_refines_workflow\<close>): the calls of every run are a trace of the workflow
  contract. C12 (\<open>run_returns_cleans_up\<close>): a run returning normally made the eight
  calls, each answered without error (by \<open>replay\<close> of its log), and under the
  contract leaves none of its resources. C13 (\<open>redesign_equivalent\<close>): the
  redesign ends every run with the same outcome, output, calls and cloud as the
  program.

  \<^bold>\<open>Bounds and termination.\<close> The program has no loop and no recursion, so every
  definition is total and no fuel is needed; \<open>fmt.Scanln\<close> is modelled as reading at
  most one line, returning at once at end of input.

  \<^bold>\<open>Not modelled.\<close> The libraries (given as the parameter \<open>az\<close>), the
  HTTP and OAuth protocols behind them, the formatting machinery of \<open>fmt\<close> (each
  \<^verbatim>\<open>Printf\<close> is its formatted string, one output chunk), and concurrency, which
  the program does not have. A Go panic is its message and status 2; the stack trace is
  not modelled.
\<close>

end
